theory Spec2Isabelle
  imports Complex_Main "HOL-Library.Multiset"
begin

section \<open>Signal localisation and layout engine of the WiFi heatmap visualiser\<close>

text \<open>
  The repository holds four near-identical front-end scripts. Two of them place access
  points by trilateration (\<^verbatim>\<open>web/script.js\<close> and \<^verbatim>\<open>part_000\<close>), two of them place
  access points on a radial layout (\<^verbatim>\<open>part_001\<close> and \<^verbatim>\<open>part_002\<close>). The two families
  differ in a few constants and in the jitter term of the smoothing filter; the family is
  a parameter of the definitions below wherever the code differs.

  JavaScript numbers are modelled as HOL reals. \<^verbatim>\<open>Math.pow\<close> is \<open>powr\<close>, \<^verbatim>\<open>Math.sqrt\<close>
  is \<open>sqrt\<close>, \<^verbatim>\<open>Math.random()\<close> is an explicit argument \<open>u\<close> with \<open>0 \<le> u < 1\<close>.
  Outside the multilateration solver every arithmetic operation is exact. The solver,
  whose guard compares a computed determinant with a threshold, takes the rounding that
  follows each operation as a parameter \<open>rnd\<close>: with \<open>exact\<close> it computes in the reals,
  with \<open>fl64\<close> every operation is rounded to the nearest IEEE 754 binary64 number, as a
  JavaScript engine does. NaN, infinities and subnormal numbers are outside the model.
\<close>

datatype variant = Trilateration | Radial

subsection \<open>Data\<close>

text \<open>A scanned network, as delivered by \<^verbatim>\<open>/api/wifi\<close>.\<close>

record network =
  bssid :: string
  ssid :: string
  band :: string
  rssi :: real

text \<open>An entry \<^verbatim>\<open>{rssi, dist}\<close> of the \<^verbatim>\<open>smoothed\<close> table.\<close>

record smooth =
  sm_rssi :: real
  sm_dist :: real

subsection \<open>Numeric helpers\<close>

definition lerp :: "real \<Rightarrow> real \<Rightarrow> real \<Rightarrow> real" where
  "lerp a b t = a + (b - a) * t"

definition clamp :: "real \<Rightarrow> real \<Rightarrow> real \<Rightarrow> real" where
  "clamp v a b = max a (min b v)"

text \<open>\<^verbatim>\<open>rand(a,b)\<close>, with the draw of \<^verbatim>\<open>Math.random()\<close> passed as \<open>u\<close>.\<close>

definition rand :: "real \<Rightarrow> real \<Rightarrow> real \<Rightarrow> real" where
  "rand u a b = a + u * (b - a)"

subsection \<open>Rounding\<close>

text \<open>
  Round to the nearest integer, a tie going to the even neighbour.
\<close>

definition rne :: "real \<Rightarrow> int" where
  "rne x = (let f = \<lfloor>x\<rfloor>; d = x - of_int f
            in if d < 1 / 2 then f else if 1 / 2 < d then f + 1
               else if even f then f else f + 1)"

text \<open>
  The binary exponent of a nonzero real, and the rounding of a real to the nearest
  number with a 53-bit significand at that exponent (ties to even). On the normal range
  of binary64 this is the rounding that every JavaScript arithmetic operation and every
  numeric literal goes through. \<^verbatim>\<open>Math.cos\<close>, \<^verbatim>\<open>Math.PI\<close> and \<^verbatim>\<open>**\<close> are read as
  the rounded exact value.
\<close>

definition expo :: "real \<Rightarrow> int" where
  "expo x = \<lfloor>log 2 \<bar>x\<bar>\<rfloor>"

definition fl64 :: "real \<Rightarrow> real" where
  "fl64 x = of_int (rne (x / 2 powi (expo x - 52))) * 2 powi (expo x - 52)"

text \<open>No rounding: the operations of the reals.\<close>

definition exact :: "real \<Rightarrow> real" where
  "exact x = x"

subsection \<open>Distance model\<close>

text \<open>
  \<^verbatim>\<open>rssiToDistance(rssi, band)\<close>. The path-loss exponent \<^verbatim>\<open>n\<close> and the reference
  level \<^verbatim>\<open>P0\<close> are 2.4/2.1 and -45/-40 in the trilateration scripts, 2.7/2.2 and
  -47/-42 in the radial scripts.
\<close>

definition pathLossExponent :: "variant \<Rightarrow> string \<Rightarrow> real" where
  "pathLossExponent v bnd =
     (case v of
        Trilateration \<Rightarrow> (if bnd = ''5 GHz'' then 24 / 10 else 21 / 10)
      | Radial \<Rightarrow> (if bnd = ''5 GHz'' then 27 / 10 else 22 / 10))"

definition P0 :: "variant \<Rightarrow> string \<Rightarrow> real" where
  "P0 v bnd =
     (case v of
        Trilateration \<Rightarrow> (if bnd = ''5 GHz'' then - 45 else - 40)
      | Radial \<Rightarrow> (if bnd = ''5 GHz'' then - 47 else - 42))"

definition rssiToDistance :: "variant \<Rightarrow> real \<Rightarrow> string \<Rightarrow> real" where
  "rssiToDistance v r bnd =
     (let n = pathLossExponent v bnd;
          p0 = P0 v bnd;
          d = 10 powr ((p0 - r) / (10 * n))
      in clamp d (1 / 2) 100)"

subsection \<open>Multilateration solver\<close>

text \<open>
  A snapshot \<^verbatim>\<open>{lat, lon, dist, band}\<close> as \<^verbatim>\<open>computeTrilateration\<close> builds it;
  \<^verbatim>\<open>trilaterate\<close> never reads the band, which is left out.
\<close>

record snapshot =
  lat :: real
  lon :: real
  sdist :: real

text \<open>
  The inner function \<^verbatim>\<open>toXY\<close>, with the reference snapshot it closes over. Every
  operation of the source expression is followed by \<open>rnd\<close>, in the order in which
  JavaScript evaluates it; the literals are integers that binary64 holds exactly.
\<close>

definition toXY :: "(real \<Rightarrow> real) \<Rightarrow> snapshot \<Rightarrow> snapshot \<Rightarrow> real \<times> real" where
  "toXY rnd ref s =
     (rnd (rnd (lon s - lon ref)
           * rnd (rnd (40075000 * rnd (cos (rnd (rnd (lat ref * rnd pi) / 180)))) / 360)),
      rnd (rnd (lat s - lat ref) * 111320))"

text \<open>
  \<^verbatim>\<open>P = snapshots.map(s => ({p: toXY(s), d: s.dist}))\<close>: a list of pairs (p, d).
  The callers below only run behind the length check of \<^verbatim>\<open>trilaterate\<close>, so
  \<open>hd\<close> reads an existing first element.
\<close>

definition trilat_P :: "(real \<Rightarrow> real) \<Rightarrow> snapshot list \<Rightarrow> ((real \<times> real) \<times> real) list" where
  "trilat_P rnd snapshots = map (\<lambda>s. (toXY rnd (hd snapshots) s, sdist s)) snapshots"

text \<open>The loop \<^verbatim>\<open>for(i=1; i<P.length; i++)\<close>: one row of A and one entry of b per
  observation after the first.\<close>

definition trilat_A :: "(real \<Rightarrow> real) \<Rightarrow> snapshot list \<Rightarrow> (real \<times> real) list" where
  "trilat_A rnd snapshots =
     (let P = trilat_P rnd snapshots; p1 = hd P
      in map (\<lambda>pi. (rnd (2 * rnd (fst (fst pi) - fst (fst p1))),
                     rnd (2 * rnd (snd (fst pi) - snd (fst p1)))))
           (tl P))"

definition trilat_b :: "(real \<Rightarrow> real) \<Rightarrow> snapshot list \<Rightarrow> real list" where
  "trilat_b rnd snapshots =
     (let P = trilat_P rnd snapshots; p1 = hd P
      in map (\<lambda>pi. rnd (rnd (rnd (rnd ((fst (fst p1))\<^sup>2) - rnd ((fst (fst pi))\<^sup>2))
                               + rnd (rnd ((snd (fst p1))\<^sup>2) - rnd ((snd (fst pi))\<^sup>2)))
                         + rnd (rnd ((snd pi)\<^sup>2) - rnd ((snd p1)\<^sup>2))))
           (tl P))"

text \<open>The five \<^verbatim>\<open>A.reduce(...)\<close> sums; \<^verbatim>\<open>reduce\<close> is a left fold from 0.\<close>

definition AtA00 :: "(real \<Rightarrow> real) \<Rightarrow> snapshot list \<Rightarrow> real" where
  "AtA00 rnd snapshots =
     foldl (\<lambda>s row. rnd (s + rnd (fst row * fst row))) 0 (trilat_A rnd snapshots)"

definition AtA01 :: "(real \<Rightarrow> real) \<Rightarrow> snapshot list \<Rightarrow> real" where
  "AtA01 rnd snapshots =
     foldl (\<lambda>s row. rnd (s + rnd (fst row * snd row))) 0 (trilat_A rnd snapshots)"

definition AtA11 :: "(real \<Rightarrow> real) \<Rightarrow> snapshot list \<Rightarrow> real" where
  "AtA11 rnd snapshots =
     foldl (\<lambda>s row. rnd (s + rnd (snd row * snd row))) 0 (trilat_A rnd snapshots)"

definition Atb0 :: "(real \<Rightarrow> real) \<Rightarrow> snapshot list \<Rightarrow> real" where
  "Atb0 rnd snapshots =
     foldl (\<lambda>s (row, bi). rnd (s + rnd (fst row * bi))) 0
       (zip (trilat_A rnd snapshots) (trilat_b rnd snapshots))"

definition Atb1 :: "(real \<Rightarrow> real) \<Rightarrow> snapshot list \<Rightarrow> real" where
  "Atb1 rnd snapshots =
     foldl (\<lambda>s (row, bi). rnd (s + rnd (snd row * bi))) 0
       (zip (trilat_A rnd snapshots) (trilat_b rnd snapshots))"

text \<open>\<^verbatim>\<open>det = AtA00*AtA11 - AtA01*AtA01\<close>, as the code computes it.\<close>

definition det :: "(real \<Rightarrow> real) \<Rightarrow> snapshot list \<Rightarrow> real" where
  "det rnd snapshots =
     rnd (rnd (AtA00 rnd snapshots * AtA11 rnd snapshots)
          - rnd (AtA01 rnd snapshots * AtA01 rnd snapshots))"

text \<open>
  \<^verbatim>\<open>trilaterate(hotspotKey, snapshots)\<close>; \<open>None\<close> is the \<^verbatim>\<open>null\<close> result. The
  literal \<^verbatim>\<open>1e-6\<close> is the rounded value of \<open>10\<^sup>-\<^sup>6\<close>.
\<close>

definition trilaterate ::
  "(real \<Rightarrow> real) \<Rightarrow> string \<Rightarrow> snapshot list \<Rightarrow> (real \<times> real) option" where
  "trilaterate rnd hotspotKey snapshots =
     (if length snapshots < 3 then None
      else if \<bar>det rnd snapshots\<bar> < rnd (1 / 10 ^ 6) then None
      else
        let x = rnd (rnd (rnd (AtA11 rnd snapshots * Atb0 rnd snapshots)
                          - rnd (AtA01 rnd snapshots * Atb1 rnd snapshots))
                     / det rnd snapshots);
            y = rnd (rnd (rnd (- AtA01 rnd snapshots * Atb0 rnd snapshots)
                          + rnd (AtA00 rnd snapshots * Atb1 rnd snapshots))
                     / det rnd snapshots)
        in Some (x, y))"

text \<open>
  The premise of the round-trip property: the emitter sits at the planar offset
  \<open>(tx, ty)\<close> from the reference observation, and every observation's distance is its
  exact Euclidean distance to that offset.
\<close>

definition noiseless :: "real \<times> real \<Rightarrow> snapshot list \<Rightarrow> bool" where
  "noiseless t snapshots =
     list_all (\<lambda>s. sdist s = sqrt ((fst (toXY exact (hd snapshots) s) - fst t)\<^sup>2
                               + (snd (toXY exact (hd snapshots) s) - snd t)\<^sup>2))
       snapshots"




subsection \<open>Obstruction model\<close>

text \<open>An obstacle \<^verbatim>\<open>{x, y, w, h, attenuation}\<close>.\<close>

record obstacle =
  ox :: real
  oy :: real
  ow :: real
  oh :: real
  attenuation :: real

text \<open>The inner function \<^verbatim>\<open>ccw\<close> of \<^verbatim>\<open>segmentsIntersect\<close>.\<close>

definition ccw :: "real \<Rightarrow> real \<Rightarrow> real \<Rightarrow> real \<Rightarrow> real \<Rightarrow> real \<Rightarrow> bool" where
  "ccw ax ay bx by cx cy \<longleftrightarrow> (cy - ay) * (bx - ax) > (by - ay) * (cx - ax)"

definition segmentsIntersect ::
  "real \<Rightarrow> real \<Rightarrow> real \<Rightarrow> real \<Rightarrow> real \<Rightarrow> real \<Rightarrow> real \<Rightarrow> real \<Rightarrow> bool" where
  "segmentsIntersect x1 y1 x2 y2 x3 y3 x4 y4 \<longleftrightarrow>
     (ccw x1 y1 x3 y3 x4 y4 \<noteq> ccw x2 y2 x3 y3 x4 y4)
     \<and> (ccw x1 y1 x2 y2 x3 y3 \<noteq> ccw x1 y1 x2 y2 x4 y4)"

text \<open>The four edges \<^verbatim>\<open>[ax, ay, bx, by]\<close> of a rectangle, in the order of the source.\<close>

definition edges :: "obstacle \<Rightarrow> (real \<times> real \<times> real \<times> real) list" where
  "edges r =
     [(ox r, oy r, ox r + ow r, oy r),
      (ox r + ow r, oy r, ox r + ow r, oy r + oh r),
      (ox r + ow r, oy r + oh r, ox r, oy r + oh r),
      (ox r, oy r + oh r, ox r, oy r)]"

text \<open>The loop over the edges returns true at the first edge that intersects.\<close>

definition lineIntersectsRect :: "real \<Rightarrow> real \<Rightarrow> real \<Rightarrow> real \<Rightarrow> obstacle \<Rightarrow> bool" where
  "lineIntersectsRect x1 y1 x2 y2 r =
     list_ex (\<lambda>(ax, ay, bx, by). segmentsIntersect x1 y1 x2 y2 ax ay bx by) (edges r)"

text \<open>
  \<^verbatim>\<open>obstacleAttenuationOnPath(x1,y1,x2,y2)\<close>: the loop over the global obstacle list,
  which is an argument here, with the running factor \<^verbatim>\<open>atten\<close>.
\<close>

fun atten_loop :: "real \<Rightarrow> real \<Rightarrow> real \<Rightarrow> real \<Rightarrow> real \<Rightarrow> obstacle list \<Rightarrow> real" where
  "atten_loop x1 y1 x2 y2 atten [] = atten"
| "atten_loop x1 y1 x2 y2 atten (ob # obs) =
     atten_loop x1 y1 x2 y2
       (if lineIntersectsRect x1 y1 x2 y2 ob then atten * (1 - attenuation ob) else atten) obs"

definition obstacleAttenuationOnPath ::
  "obstacle list \<Rightarrow> real \<Rightarrow> real \<Rightarrow> real \<Rightarrow> real \<Rightarrow> real" where
  "obstacleAttenuationOnPath obstacles x1 y1 x2 y2 = atten_loop x1 y1 x2 y2 1 obstacles"

text \<open>
  Geometric vocabulary for the statements about touching and enclosed segments; the
  predicates from here to the end of this subsection describe inputs and are not part
  of the scripts. A point is strictly inside a rectangle; a point lies on the closed
  segment from a to b; a point lies on it strictly between a and b.
\<close>

definition strictly_inside :: "obstacle \<Rightarrow> real \<Rightarrow> real \<Rightarrow> bool" where
  "strictly_inside r px py \<longleftrightarrow>
     ox r < px \<and> px < ox r + ow r \<and> oy r < py \<and> py < oy r + oh r"

definition on_segment :: "real \<Rightarrow> real \<Rightarrow> real \<Rightarrow> real \<Rightarrow> real \<Rightarrow> real \<Rightarrow> bool" where
  "on_segment ax ay bx by px py \<longleftrightarrow>
     (py - ay) * (bx - ax) = (by - ay) * (px - ax)
     \<and> 0 \<le> (px - ax) * (bx - px) + (py - ay) * (by - py)"

definition strictly_between :: "real \<Rightarrow> real \<Rightarrow> real \<Rightarrow> real \<Rightarrow> real \<Rightarrow> real \<Rightarrow> bool" where
  "strictly_between ax ay bx by px py \<longleftrightarrow>
     (py - ay) * (bx - ax) = (by - ay) * (px - ax)
     \<and> 0 < (px - ax) * (bx - px) + (py - ay) * (by - py)"

text \<open>
  Two closed segments have a point in common; a segment has a point in common with the
  boundary of a rectangle.
\<close>

definition share_point ::
  "real \<Rightarrow> real \<Rightarrow> real \<Rightarrow> real \<Rightarrow> real \<Rightarrow> real \<Rightarrow> real \<Rightarrow> real \<Rightarrow> bool" where
  "share_point x1 y1 x2 y2 x3 y3 x4 y4 \<longleftrightarrow>
     (\<exists>s t. 0 \<le> s \<and> s \<le> 1 \<and> 0 \<le> t \<and> t \<le> 1
        \<and> x1 + s * (x2 - x1) = x3 + t * (x4 - x3)
        \<and> y1 + s * (y2 - y1) = y3 + t * (y4 - y3))"

definition touches_boundary :: "obstacle \<Rightarrow> real \<Rightarrow> real \<Rightarrow> real \<Rightarrow> real \<Rightarrow> bool" where
  "touches_boundary r x1 y1 x2 y2 =
     list_ex (\<lambda>(ax, ay, bx, by). share_point x1 y1 x2 y2 ax ay bx by) (edges r)"

text \<open>
  A proper crossing of two segments: the segments are not parallel and meet at a point
  interior to both. The segment properly crosses the boundary of a rectangle when it
  properly crosses one of the four edges.
\<close>

definition proper_cross ::
  "real \<Rightarrow> real \<Rightarrow> real \<Rightarrow> real \<Rightarrow> real \<Rightarrow> real \<Rightarrow> real \<Rightarrow> real \<Rightarrow> bool" where
  "proper_cross x1 y1 x2 y2 x3 y3 x4 y4 \<longleftrightarrow>
     (x2 - x1) * (y4 - y3) - (y2 - y1) * (x4 - x3) \<noteq> 0
     \<and> (\<exists>s t. 0 < s \<and> s < 1 \<and> 0 < t \<and> t < 1
          \<and> x1 + s * (x2 - x1) = x3 + t * (x4 - x3)
          \<and> y1 + s * (y2 - y1) = y3 + t * (y4 - y3))"

definition crosses_boundary :: "obstacle \<Rightarrow> real \<Rightarrow> real \<Rightarrow> real \<Rightarrow> real \<Rightarrow> bool" where
  "crosses_boundary r x1 y1 x2 y2 =
     list_ex (\<lambda>(ax, ay, bx, by). proper_cross x1 y1 x2 y2 ax ay bx by) (edges r)"

text \<open>The whole segment lies on one edge of the rectangle (it touches that edge
  collinearly and never enters the interior).\<close>

definition lies_on_edge :: "obstacle \<Rightarrow> real \<Rightarrow> real \<Rightarrow> real \<Rightarrow> real \<Rightarrow> bool" where
  "lies_on_edge r x1 y1 x2 y2 =
     list_ex (\<lambda>(ax, ay, bx, by). on_segment ax ay bx by x1 y1 \<and> on_segment ax ay bx by x2 y2)
       (edges r)"

text \<open>The whole segment lies on one edge, strictly between that edge's two corners.\<close>

definition lies_within_edge :: "obstacle \<Rightarrow> real \<Rightarrow> real \<Rightarrow> real \<Rightarrow> real \<Rightarrow> bool" where
  "lies_within_edge r x1 y1 x2 y2 =
     list_ex (\<lambda>(ax, ay, bx, by).
                strictly_between ax ay bx by x1 y1 \<and> strictly_between ax ay bx by x2 y2)
       (edges r)"

text \<open>
  The segment passes through a corner of the rectangle and the two neighbouring corners
  lie strictly on one side of the segment's line: the segment meets the rectangle in that
  corner only. Each triple is a corner followed by its two neighbours.
\<close>

definition touches_corner_only :: "obstacle \<Rightarrow> real \<Rightarrow> real \<Rightarrow> real \<Rightarrow> real \<Rightarrow> bool" where
  "touches_corner_only r x1 y1 x2 y2 =
     list_ex (\<lambda>((cx, cy), (ax, ay), (bx, by)).
                on_segment x1 y1 x2 y2 cx cy
                \<and> 0 < ((ay - y1) * (x2 - x1) - (y2 - y1) * (ax - x1))
                    * ((by - y1) * (x2 - x1) - (y2 - y1) * (bx - x1)))
       [((ox r, oy r), (ox r + ow r, oy r), (ox r, oy r + oh r)),
        ((ox r + ow r, oy r), (ox r, oy r), (ox r + ow r, oy r + oh r)),
        ((ox r + ow r, oy r + oh r), (ox r + ow r, oy r), (ox r, oy r + oh r)),
        ((ox r, oy r + oh r), (ox r, oy r), (ox r + ow r, oy r + oh r))]"

subsection \<open>Smoothing filter\<close>

text \<open>
  \<^verbatim>\<open>updateSmoothed(network)\<close> on the table \<^verbatim>\<open>smoothed\<close> (a \<^verbatim>\<open>Map\<close> from bssid to
  \<^verbatim>\<open>{rssi, dist}\<close>), returning the new entry and the updated table. A missing entry
  makes \<^verbatim>\<open>smoothed.get(key) || {...}\<close> take the seed built from the raw reading. The
  trilateration scripts blend toward \<^verbatim>\<open>network.rssi + rand(-2,2)\<close>, the radial scripts
  toward \<^verbatim>\<open>network.rssi\<close>; \<open>u\<close> is the draw of \<^verbatim>\<open>Math.random()\<close> in this call.
\<close>

definition prev_entry :: "variant \<Rightarrow> network \<Rightarrow> (string \<rightharpoonup> smooth) \<Rightarrow> smooth" where
  "prev_entry v network smoothed =
     (case smoothed (bssid network) of
        Some p \<Rightarrow> p
      | None \<Rightarrow> \<lparr>sm_rssi = rssi network,
                 sm_dist = rssiToDistance v (rssi network) (band network)\<rparr>)"

definition targetRssi :: "variant \<Rightarrow> real \<Rightarrow> network \<Rightarrow> real" where
  "targetRssi v u network =
     (case v of
        Trilateration \<Rightarrow> rssi network + rand u (- 2) 2
      | Radial \<Rightarrow> rssi network)"

definition updateSmoothed ::
  "variant \<Rightarrow> real \<Rightarrow> network \<Rightarrow> (string \<rightharpoonup> smooth) \<Rightarrow> smooth \<times> (string \<rightharpoonup> smooth)" where
  "updateSmoothed v u network smoothed =
     (let key = bssid network;
          prev = prev_entry v network smoothed;
          newRssi = lerp (sm_rssi prev) (targetRssi v u network) (8 / 100);
          d = rssiToDistance v newRssi (band network);
          newDist = lerp (sm_dist prev) d (8 / 100);
          data = \<lparr>sm_rssi = newRssi, sm_dist = newDist\<rparr>
      in (data, smoothed(key \<mapsto> data)))"

text \<open>
  Calling \<open>updateSmoothed\<close> again and again with the same network reading: the table
  after \<open>k\<close> calls, and the value the call number \<open>k + 1\<close> returns. The draws of
  \<^verbatim>\<open>Math.random()\<close> are the sequence \<open>us\<close>.
\<close>

primrec table_after ::
  "variant \<Rightarrow> (nat \<Rightarrow> real) \<Rightarrow> network \<Rightarrow> (string \<rightharpoonup> smooth) \<Rightarrow> nat \<Rightarrow> (string \<rightharpoonup> smooth)" where
  "table_after v us network smoothed 0 = smoothed"
| "table_after v us network smoothed (Suc k) =
     snd (updateSmoothed v (us k) network (table_after v us network smoothed k))"

definition returned ::
  "variant \<Rightarrow> (nat \<Rightarrow> real) \<Rightarrow> network \<Rightarrow> (string \<rightharpoonup> smooth) \<Rightarrow> nat \<Rightarrow> smooth" where
  "returned v us network smoothed k =
     fst (updateSmoothed v (us k) network (table_after v us network smoothed k))"

subsection \<open>Radial layout: angle assignment\<close>

definition goldenAngleIncrement :: real where
  "goldenAngleIncrement = pi * (3 - sqrt 5)"

text \<open>
  The table \<^verbatim>\<open>networkAngles\<close> is a \<^verbatim>\<open>Map\<close>; it is modelled by its list of entries in
  insertion order, so \<^verbatim>\<open>size\<close> is the length, \<^verbatim>\<open>has\<close> is membership among the keys
  and \<^verbatim>\<open>get\<close> is \<open>map_of\<close>. \<open>assignAngle\<close> is the \<^verbatim>\<open>if (!networkAngles.has(...))\<close>
  statement of \<^verbatim>\<open>draw\<close>, which only ever sets a key that is absent;
  \<open>assignAngles\<close> runs it over the bssids in the order in which \<^verbatim>\<open>draw\<close> meets them,
  frame after frame. The reset handler's \<^verbatim>\<open>networkAngles.clear()\<close> gives the empty list.
\<close>

definition assignAngle :: "(string \<times> real) list \<Rightarrow> string \<Rightarrow> (string \<times> real) list" where
  "assignAngle networkAngles b =
     (if b \<in> fst ` set networkAngles then networkAngles
      else networkAngles @ [(b, real (length networkAngles) * goldenAngleIncrement)])"

definition assignAngles :: "(string \<times> real) list \<Rightarrow> string list \<Rightarrow> (string \<times> real) list" where
  "assignAngles networkAngles bs = foldl assignAngle networkAngles bs"

subsection \<open>Radial layout: repulsion relaxation\<close>

text \<open>A display node; the relaxation reads and writes the coordinates only.\<close>

record node =
  nid :: string
  nx :: real
  ny :: real
  n_rssi :: real
  n_dist :: real

definition minSeparation :: real where
  "minSeparation = 110"

definition repulsionStrength :: real where
  "repulsionStrength = 6 / 10"

text \<open>
  The body of the innermost loop for the pair \<open>(i, j)\<close>. It is only called with
  \<open>i < j < length nodes\<close>, so the two nodes are distinct entries of the array.
\<close>

definition repel :: "nat \<Rightarrow> nat \<Rightarrow> node list \<Rightarrow> node list" where
  "repel i j nodes =
     (let nodeA = nodes ! i;
          nodeB = nodes ! j;
          dx = nx nodeB - nx nodeA;
          dy = ny nodeB - ny nodeA;
          distanceSq = dx * dx + dy * dy
      in if distanceSq > 0 \<and> distanceSq < minSeparation * minSeparation then
           let distance = sqrt distanceSq;
               force = (minSeparation - distance) / distance * repulsionStrength;
               moveX = dx * force * (1 / 2);
               moveY = dy * force * (1 / 2)
           in (nodes[i := nodeA\<lparr>nx := nx nodeA - moveX, ny := ny nodeA - moveY\<rparr>])
                [j := nodeB\<lparr>nx := nx nodeB + moveX, ny := ny nodeB + moveY\<rparr>]
         else nodes)"

text \<open>
  \<^verbatim>\<open>for (j = i + 1; j < displayNodes.length; j++)\<close>, then
  \<^verbatim>\<open>for (i = 0; i < displayNodes.length; i++)\<close>, then the five iterations. The array
  never changes its length, so the bound is the length at loop entry.
\<close>

definition loop_j :: "nat \<Rightarrow> node list \<Rightarrow> node list" where
  "loop_j i nodes = fold (repel i) [Suc i ..< length nodes] nodes"

definition loop_i :: "node list \<Rightarrow> node list" where
  "loop_i nodes = fold loop_j [0 ..< length nodes] nodes"

definition iterations :: nat where
  "iterations = 5"

definition relax :: "node list \<Rightarrow> node list" where
  "relax nodes = fold (\<lambda>iter. loop_i) [0 ..< iterations] nodes"

text \<open>The mean position of a node list.\<close>

definition centroid :: "node list \<Rightarrow> real \<times> real" where
  "centroid nodes =
     (sum_list (map nx nodes) / real (length nodes),
      sum_list (map ny nodes) / real (length nodes))"

subsection \<open>Rolling analysis: scoring\<close>

text \<open>A sample \<^verbatim>\<open>{t, rssi, dist, meta}\<close> of an analysis window.\<close>

record sample =
  sa_t :: real
  sa_rssi :: real
  sa_dist :: real
  sa_meta :: network

text \<open>The candidate \<^verbatim>\<open>{bssid, avgRssi, avgDist, meta, score}\<close> held in \<^verbatim>\<open>best\<close>.\<close>

record candidate =
  c_bssid :: string
  c_avgRssi :: real
  c_avgDist :: real
  c_meta :: network
  c_score :: real

text \<open>The weight of the average distance in the score: \<^verbatim>\<open>avgRssi - 2*avgDist\<close> in the
  trilateration scripts, \<^verbatim>\<open>avgRssi - avgDist\<close> in the radial scripts.\<close>

definition scoreWeight :: "variant \<Rightarrow> real" where
  "scoreWeight v = (case v of Trilateration \<Rightarrow> 2 | Radial \<Rightarrow> 1)"

definition avgRssi :: "sample list \<Rightarrow> real" where
  "avgRssi arr = foldl (\<lambda>s a. s + sa_rssi a) 0 arr / real (length arr)"

definition avgDist :: "sample list \<Rightarrow> real" where
  "avgDist arr = foldl (\<lambda>s a. s + sa_dist a) 0 arr / real (length arr)"

definition score :: "variant \<Rightarrow> sample list \<Rightarrow> real" where
  "score v arr = avgRssi arr - scoreWeight v * avgDist arr"

text \<open>
  The callback of \<^verbatim>\<open>analysisWindow.forEach\<close>, run when the duration has elapsed. The
  window table is a \<^verbatim>\<open>Map\<close>, visited in insertion order: a list of entries
  \<open>(bssid, arr)\<close>. \<open>candidate_of\<close> is the object the callback stores in \<^verbatim>\<open>best\<close>;
  \<^verbatim>\<open>!best\<close> holds exactly while \<^verbatim>\<open>best\<close> is \<^verbatim>\<open>null\<close>.
\<close>

definition candidate_of :: "variant \<Rightarrow> string \<Rightarrow> sample list \<Rightarrow> candidate" where
  "candidate_of v b arr =
     \<lparr>c_bssid = b, c_avgRssi = avgRssi arr, c_avgDist = avgDist arr,
      c_meta = sa_meta (last arr), c_score = score v arr\<rparr>"

definition score_entry ::
  "variant \<Rightarrow> candidate option \<Rightarrow> string \<times> sample list \<Rightarrow> candidate option" where
  "score_entry v best e =
     (let b = fst e; arr = snd e
      in if length arr < 5 then best
         else
           (case best of
              None \<Rightarrow> Some (candidate_of v b arr)
            | Some bst \<Rightarrow>
                if score v arr > c_score bst then Some (candidate_of v b arr) else best))"

definition suggest :: "variant \<Rightarrow> (string \<times> sample list) list \<Rightarrow> candidate option" where
  "suggest v analysisWindow = foldl (score_entry v) None analysisWindow"

text \<open>
  \<^verbatim>\<open>analysisWindow.set(key, arr)\<close> on the list of entries: an existing key keeps its
  place, a new key goes to the end.
\<close>

fun window_set ::
  "(string \<times> sample list) list \<Rightarrow> string \<Rightarrow> sample list \<Rightarrow> (string \<times> sample list) list" where
  "window_set [] k arr = [(k, arr)]"
| "window_set (e # es) k arr =
     (if fst e = k then (k, arr) # es else e # window_set es k arr)"

text \<open>
  The body of the collecting loop of \<^verbatim>\<open>step\<close> for one live network at the timestamp
  \<open>ts\<close>: read the smoothed entry (or the seed), push the sample, drop samples older
  than 30000 ms from the front, store the array.
\<close>

definition collect ::
  "variant \<Rightarrow> real \<Rightarrow> (string \<rightharpoonup> smooth) \<Rightarrow> (string \<times> sample list) list \<Rightarrow> network
     \<Rightarrow> (string \<times> sample list) list" where
  "collect v ts smoothed analysisWindow n =
     (let s = prev_entry v n smoothed;
          arr = (case map_of analysisWindow (bssid n) of Some a \<Rightarrow> a | None \<Rightarrow> []);
          pushed = arr @ [\<lparr>sa_t = ts, sa_rssi = sm_rssi s, sa_dist = sm_dist s, sa_meta = n\<rparr>];
          kept = dropWhile (\<lambda>a. ts - sa_t a > 30000) pushed
      in window_set analysisWindow (bssid n) kept)"

definition DURATION :: real where
  "DURATION = 30000"

text \<open>
  One run of \<^verbatim>\<open>step\<close> at the elapsed time \<open>t\<close>: collect a sample for every live
  network, then either ask for another frame (\<open>None\<close>) or, the duration having elapsed,
  score the windows (\<open>Some\<close> of the recommendation, which is \<open>None\<close> for
  \<^verbatim>\<open>'No sufficient data to suggest.'\<close>).
\<close>

definition step ::
  "variant \<Rightarrow> real \<Rightarrow> real \<Rightarrow> network list \<Rightarrow> (string \<rightharpoonup> smooth) \<Rightarrow> (string \<times> sample list) list
     \<Rightarrow> (string \<times> sample list) list \<times> candidate option option" where
  "step v t ts liveNetworks smoothed analysisWindow =
     (let w = foldl (collect v ts smoothed) analysisWindow liveNetworks
      in (w, if t < DURATION then None else Some (suggest v w)))"

section \<open>Properties\<close>

subsection \<open>Distance model\<close>

lemma pathLossExponent_pos: "0 < pathLossExponent v bnd"
  by (cases v) (simp_all add: pathLossExponent_def)

lemma clamp_bounds: "a \<le> b \<Longrightarrow> a \<le> clamp v a b \<and> clamp v a b \<le> b"
  by (simp add: clamp_def)

lemma clamp_mono: "v \<le> v' \<Longrightarrow> clamp v a b \<le> clamp v' a b"
  by (auto simp add: clamp_def max_def min_def)

lemma rssiToDistance_antimono:
  assumes "r1 \<le> r2"
  shows "rssiToDistance v r2 bnd \<le> rssiToDistance v r1 bnd"
proof -
  let ?n = "pathLossExponent v bnd"
  have n: "0 < 10 * ?n" using pathLossExponent_pos [of v bnd] by simp
  have "(P0 v bnd - r2) / (10 * ?n) \<le> (P0 v bnd - r1) / (10 * ?n)"
    using assms n by (simp add: divide_right_mono)
  then have "(10::real) powr ((P0 v bnd - r2) / (10 * ?n))
               \<le> 10 powr ((P0 v bnd - r1) / (10 * ?n))"
    by (simp add: powr_mono)
  then show ?thesis
    by (simp add: rssiToDistance_def Let_def clamp_mono)
qed

text \<open>
  Claim C3. For every signal value in [-90, -30] and every band string (the string
  \<^verbatim>\<open>'5 GHz'\<close> or any other, which takes the fallback constants), in both script
  families, \<open>rssiToDistance\<close> lies in [0.5, 100], and for a fixed band a larger signal
  value never gives a larger distance.
\<close>

theorem rssiToDistance_range_antimono:
  assumes "- 90 \<le> r1" and "r1 \<le> r2" and "r2 \<le> - 30"
  shows "1 / 2 \<le> rssiToDistance v r1 bnd \<and> rssiToDistance v r1 bnd \<le> 100
       \<and> 1 / 2 \<le> rssiToDistance v r2 bnd \<and> rssiToDistance v r2 bnd \<le> 100
       \<and> rssiToDistance v r2 bnd \<le> rssiToDistance v r1 bnd"
proof -
  have b: "\<And>r. 1 / 2 \<le> rssiToDistance v r bnd \<and> rssiToDistance v r bnd \<le> 100"
    unfolding rssiToDistance_def Let_def by (rule clamp_bounds) simp
  show ?thesis
    using b [of r1] b [of r2] rssiToDistance_antimono [OF assms(2), of v bnd] by simp
qed

theorem rssiToDistance_range_antimono_witness:
  "(- 90 :: real) \<le> - 70 \<and> (- 70 :: real) \<le> - 50 \<and> (- 50 :: real) \<le> - 30
   \<and> 1 / 2 \<le> rssiToDistance Radial (- 70) ''5 GHz''
   \<and> rssiToDistance Radial (- 70) ''5 GHz'' \<le> 100
   \<and> rssiToDistance Radial (- 50) ''5 GHz'' \<le> rssiToDistance Radial (- 70) ''5 GHz''"
  using rssiToDistance_range_antimono [of "- 70" "- 50" Radial "''5 GHz''"] by simp

subsection \<open>Multilateration solver\<close>

text \<open>
  The binary exponent by halving and doubling, which lets the rounding of a numeral be
  computed.
\<close>

lemma expo_rec:
  "expo x = (if 2 \<le> \<bar>x\<bar> then 1 + expo (x / 2)
             else if 0 < \<bar>x\<bar> \<and> \<bar>x\<bar> < 1 then expo (2 * x) - 1 else 0)"
proof -
  have a: "expo x = 1 + expo (x / 2)" if "2 \<le> \<bar>x\<bar>"
  proof -
    have "log 2 \<bar>x / 2\<bar> = log 2 \<bar>x\<bar> - 1"
      using that by (auto simp add: log_divide)
    then show ?thesis by (simp add: expo_def)
  qed
  have b: "expo x = expo (2 * x) - 1" if "0 < \<bar>x\<bar>"
  proof -
    have "log 2 \<bar>2 * x\<bar> = 1 + log 2 \<bar>x\<bar>"
      using that by (simp add: abs_mult log_mult)
    then show ?thesis by (simp add: expo_def)
  qed
  have c: "expo x = 0" if "\<not> 2 \<le> \<bar>x\<bar>" "\<not> (0 < \<bar>x\<bar> \<and> \<bar>x\<bar> < 1)"
  proof (cases "x = 0")
    case True
    then show ?thesis by (simp add: expo_def log_def)
  next
    case False
    with that have "1 \<le> \<bar>x\<bar>" "\<bar>x\<bar> < 2" by auto
    then have "0 \<le> log 2 \<bar>x\<bar>" "log 2 \<bar>x\<bar> < 1"
      by (simp_all add: log_less_iff)
    then show ?thesis unfolding expo_def by linarith
  qed
  show ?thesis using a b c by auto
qed

lemma fl64_0: "fl64 0 = 0"
  by (simp add: fl64_def expo_rec rne_def Let_def)

lemma fl64_1: "fl64 1 = 1"
  by (simp add: fl64_def expo_rec rne_def Let_def)

lemma equator_scale:
  "fl64 (fl64 (40075000 * fl64 (cos (fl64 (fl64 (0 * fl64 pi) / 180)))) / 360)
     = 1912453493191111 / 17179869184"
proof -
  have "fl64 (fl64 (0 * fl64 pi) / 180) = 0"
    by (simp only: mult_zero_left fl64_0 div_0)
  then have "fl64 (cos (fl64 (fl64 (0 * fl64 pi) / 180))) = 1"
    by (simp only: cos_zero fl64_1)
  then have "fl64 (fl64 (40075000 * fl64 (cos (fl64 (fl64 (0 * fl64 pi) / 180)))) / 360)
               = fl64 (fl64 (40075000 * 1) / 360)"
    by (simp only:)
  also have "\<dots> = 1912453493191111 / 17179869184"
    by (simp add: fl64_def expo_rec rne_def Let_def)
  finally show ?thesis .
qed

text \<open>With the reference on the equator, \<^verbatim>\<open>toXY\<close> scales the longitude offset by the
  rounded value of 40075000 / 360.\<close>

lemma toXY_fl64_equator:
  "toXY fl64 \<lparr>lat = 0, lon = l0, sdist = d\<rparr> s
     = (fl64 (fl64 (lon s - l0) * (1912453493191111 / 17179869184)),
        fl64 (fl64 (lat s - 0) * 111320))"
  unfolding toXY_def snapshot.simps equator_scale ..













lemma toXY_ref: "toXY exact r r = (0, 0)"
  by (simp add: toXY_def exact_def)

text \<open>
  The closed-form solution of the normal equations of a 2 by 2 system whose right-hand
  side is \<open>- A t\<close> is \<open>- t\<close>.
\<close>

lemma solve_2x2:
  fixes a0 a1 c0 c1 tx ty :: real
  defines "b0 \<equiv> - (a0 * tx + a1 * ty)" and "b1 \<equiv> - (c0 * tx + c1 * ty)"
  defines "m00 \<equiv> a0 * a0 + c0 * c0" and "m01 \<equiv> a0 * a1 + c0 * c1"
    and "m11 \<equiv> a1 * a1 + c1 * c1"
  defines "v0 \<equiv> a0 * b0 + c0 * b1" and "v1 \<equiv> a1 * b0 + c1 * b1"
  assumes d: "m00 * m11 - m01 * m01 \<noteq> 0"
  shows "(m11 * v0 - m01 * v1) / (m00 * m11 - m01 * m01) = - tx"
    and "(- m01 * v0 + m00 * v1) / (m00 * m11 - m01 * m01) = - ty"
proof -
  have "m11 * v0 - m01 * v1 = - tx * (m00 * m11 - m01 * m01)"
    unfolding assms(1-7) by (simp add: algebra_simps)
  then show "(m11 * v0 - m01 * v1) / (m00 * m11 - m01 * m01) = - tx"
    using d by (simp add: field_simps)
  have "- m01 * v0 + m00 * v1 = - ty * (m00 * m11 - m01 * m01)"
    unfolding assms(1-7) by (simp add: algebra_simps)
  then show "(- m01 * v0 + m00 * v1) / (m00 * m11 - m01 * m01) = - ty"
    using d by (simp add: field_simps)
qed

text \<open>
  The code builds \<open>b\<^sub>i = (x\<^sub>1\<^sup>2 - x\<^sub>i\<^sup>2) + (y\<^sub>1\<^sup>2 - y\<^sub>i\<^sup>2) + (d\<^sub>i\<^sup>2 - d\<^sub>1\<^sup>2)\<close>, the negation of
  the right-hand side that subtracting the circle equations gives for the rows
  \<open>[2(x\<^sub>i - x\<^sub>1), 2(y\<^sub>i - y\<^sub>1)]\<close>. On three noiseless observations that pass the
  determinant test, the solver therefore returns the true offset with both signs flipped.
\<close>

lemma trilaterate_three_negated:
  assumes n: "noiseless (tx, ty) [s1, s2, s3]"
    and d: "\<not> \<bar>det exact [s1, s2, s3]\<bar> < 1 / 10 ^ 6"
  shows "trilaterate exact k [s1, s2, s3] = Some (- tx, - ty)"
proof -
  obtain x2 y2 where p2: "toXY exact s1 s2 = (x2, y2)" by (cases "toXY exact s1 s2")
  obtain x3 y3 where p3: "toXY exact s1 s3 = (x3, y3)" by (cases "toXY exact s1 s3")
  have d1: "(sdist s1)\<^sup>2 = tx\<^sup>2 + ty\<^sup>2"
    and d2: "(sdist s2)\<^sup>2 = (x2 - tx)\<^sup>2 + (y2 - ty)\<^sup>2"
    and d3: "(sdist s3)\<^sup>2 = (x3 - tx)\<^sup>2 + (y3 - ty)\<^sup>2"
    using n by (simp_all add: noiseless_def toXY_ref p2 p3)
  have A: "trilat_A exact [s1, s2, s3] = [(2 * x2, 2 * y2), (2 * x3, 2 * y3)]"
    by (simp add: trilat_A_def trilat_P_def Let_def toXY_ref p2 p3 exact_def)
  have b: "trilat_b exact [s1, s2, s3]
             = [- ((2 * x2) * tx + (2 * y2) * ty), - ((2 * x3) * tx + (2 * y3) * ty)]"
    using d1 d2 d3 unfolding power2_eq_square
    by (simp add: trilat_b_def trilat_P_def Let_def toXY_ref p2 p3 exact_def
        power2_eq_square algebra_simps)
  have m00: "AtA00 exact [s1, s2, s3] = (2 * x2) * (2 * x2) + (2 * x3) * (2 * x3)"
    and m01: "AtA01 exact [s1, s2, s3] = (2 * x2) * (2 * y2) + (2 * x3) * (2 * y3)"
    and m11: "AtA11 exact [s1, s2, s3] = (2 * y2) * (2 * y2) + (2 * y3) * (2 * y3)"
    by (simp_all add: AtA00_def AtA01_def AtA11_def A exact_def)
  have v0: "Atb0 exact [s1, s2, s3] = (2 * x2) * (- ((2 * x2) * tx + (2 * y2) * ty))
                               + (2 * x3) * (- ((2 * x3) * tx + (2 * y3) * ty))"
    and v1: "Atb1 exact [s1, s2, s3] = (2 * y2) * (- ((2 * x2) * tx + (2 * y2) * ty))
                               + (2 * y3) * (- ((2 * x3) * tx + (2 * y3) * ty))"
    by (simp_all add: Atb0_def Atb1_def A b exact_def)
  have dd: "det exact [s1, s2, s3]
              = AtA00 exact [s1, s2, s3] * AtA11 exact [s1, s2, s3]
                - AtA01 exact [s1, s2, s3] * AtA01 exact [s1, s2, s3]"
    by (simp add: det_def exact_def)
  have thr: "exact (1 / 10 ^ 6) = 1 / 10 ^ 6"
    by (simp add: exact_def)
  have "det exact [s1, s2, s3] \<noteq> 0" using d by auto
  then have nz: "AtA00 exact [s1, s2, s3] * AtA11 exact [s1, s2, s3]
                   - AtA01 exact [s1, s2, s3] * AtA01 exact [s1, s2, s3] \<noteq> 0"
    by (simp add: dd)
  have x: "(AtA11 exact [s1, s2, s3] * Atb0 exact [s1, s2, s3] - AtA01 exact [s1, s2, s3] * Atb1 exact [s1, s2, s3])
             / det exact [s1, s2, s3] = - tx"
    unfolding dd using nz unfolding m00 m01 m11 v0 v1 by (rule solve_2x2(1))
  have y: "(- AtA01 exact [s1, s2, s3] * Atb0 exact [s1, s2, s3] + AtA00 exact [s1, s2, s3] * Atb1 exact [s1, s2, s3])
             / det exact [s1, s2, s3] = - ty"
    unfolding dd using nz unfolding m00 m01 m11 v0 v1 by (rule solve_2x2(2))
  show ?thesis
    using d x y by (simp add: trilaterate_def Let_def exact_def)
qed

lemma sqrt_25_16_9: "sqrt 25 = 5" "sqrt 16 = 4" "sqrt 9 = 3"
  by (rule real_sqrt_unique; simp)+

text \<open>
  Claim C1. Three noiseless observations of an emitter at the planar offset (3, 4): the
  reference at (0, 0) with distance 5, one at (3, 0) with distance 4, one at (0, 4) with
  distance 3. The geometry is not colinear (the determinant is 2304), yet the solver
  returns (-3, -4), not the true offset (3, 4).
\<close>

theorem trilaterate_roundtrip_fails:
  "noiseless (3, 4)
     [\<lparr>lat = 0, lon = 0, sdist = 5\<rparr>,
      \<lparr>lat = 0, lon = 3 * 360 / 40075000, sdist = 4\<rparr>,
      \<lparr>lat = 4 / 111320, lon = 0, sdist = 3\<rparr>]
   \<and> det exact [\<lparr>lat = 0, lon = 0, sdist = 5\<rparr>,
          \<lparr>lat = 0, lon = 3 * 360 / 40075000, sdist = 4\<rparr>,
          \<lparr>lat = 4 / 111320, lon = 0, sdist = 3\<rparr>] = 2304
   \<and> trilaterate exact ''ap''
        [\<lparr>lat = 0, lon = 0, sdist = 5\<rparr>,
         \<lparr>lat = 0, lon = 3 * 360 / 40075000, sdist = 4\<rparr>,
         \<lparr>lat = 4 / 111320, lon = 0, sdist = 3\<rparr>] = Some (- 3, - 4)"
  by (simp add: noiseless_def trilaterate_def det_def AtA00_def AtA01_def AtA11_def
      Atb0_def Atb1_def trilat_A_def trilat_b_def trilat_P_def toXY_def Let_def
      power2_eq_square sqrt_25_16_9 exact_def)

text \<open>
  The same three observations with the coordinates rounded to binary64: the planar
  positions are computed as (0, 0), (3, 0) and (0, 4) without error, the computed
  determinant is 2304 and the result is again (-3, -4).
\<close>

lemma binary64_result_negated:
  "trilat_P fl64
     [\<lparr>lat = 0, lon = 0, sdist = 5\<rparr>,
      \<lparr>lat = 0, lon = 7954079540703707 / 295147905179352825856, sdist = 4\<rparr>,
      \<lparr>lat = 2651346614978017 / 73786976294838206464, lon = 0, sdist = 3\<rparr>]
     = [((0, 0), 5), ((3, 0), 4), ((0, 4), 3)]
   \<and> det fl64
     [\<lparr>lat = 0, lon = 0, sdist = 5\<rparr>,
      \<lparr>lat = 0, lon = 7954079540703707 / 295147905179352825856, sdist = 4\<rparr>,
      \<lparr>lat = 2651346614978017 / 73786976294838206464, lon = 0, sdist = 3\<rparr>] = 2304
   \<and> trilaterate fl64 ''ap''
     [\<lparr>lat = 0, lon = 0, sdist = 5\<rparr>,
      \<lparr>lat = 0, lon = 7954079540703707 / 295147905179352825856, sdist = 4\<rparr>,
      \<lparr>lat = 2651346614978017 / 73786976294838206464, lon = 0, sdist = 3\<rparr>]
     = Some (- 3, - 4)"
proof -
  let ?S = "[\<lparr>lat = 0, lon = 0, sdist = 5\<rparr>,
      \<lparr>lat = 0, lon = 7954079540703707 / 295147905179352825856, sdist = 4\<rparr>,
      \<lparr>lat = 2651346614978017 / 73786976294838206464, lon = 0, sdist = 3\<rparr>]"
  have P: "trilat_P fl64 ?S = [((0, 0), 5), ((3, 0), 4), ((0, 4), 3)]"
    apply (simp add: trilat_P_def toXY_fl64_equator)
    apply (simp add: fl64_def expo_rec rne_def Let_def)
    done
  have A: "trilat_A fl64 ?S = [(6, 0), (0, 8)]"
    unfolding trilat_A_def P
    apply (simp add: Let_def)
    apply (simp add: fl64_def expo_rec rne_def Let_def)
    done
  have b: "trilat_b fl64 ?S = [- 18, - 32]"
    unfolding trilat_b_def P
    apply (simp add: Let_def power2_eq_square)
    apply (simp add: fl64_def expo_rec rne_def Let_def)
    done
  have m00: "AtA00 fl64 ?S = 36"
    unfolding AtA00_def A
    apply simp
    apply (simp add: fl64_def expo_rec rne_def Let_def)
    done
  have m01: "AtA01 fl64 ?S = 0"
    unfolding AtA01_def A
    apply simp
    apply (simp add: fl64_def expo_rec rne_def Let_def)
    done
  have m11: "AtA11 fl64 ?S = 64"
    unfolding AtA11_def A
    apply simp
    apply (simp add: fl64_def expo_rec rne_def Let_def)
    done
  have v0: "Atb0 fl64 ?S = - 108"
    unfolding Atb0_def A b
    apply simp
    apply (simp add: fl64_def expo_rec rne_def Let_def)
    done
  have v1: "Atb1 fl64 ?S = - 256"
    unfolding Atb1_def A b
    apply simp
    apply (simp add: fl64_def expo_rec rne_def Let_def)
    done
  have d: "det fl64 ?S = 2304"
    unfolding det_def m00 m01 m11
    by (simp add: fl64_def expo_rec rne_def Let_def)
  have thr: "fl64 (1 / 10 ^ 6) = 4722366482869645 / 4722366482869645213696"
    by (simp add: fl64_def expo_rec rne_def Let_def)
  have r: "trilaterate fl64 ''ap'' ?S = Some (- 3, - 4)"
    unfolding trilaterate_def d thr m00 m01 m11 v0 v1
    apply (simp add: Let_def)
    apply (simp add: fl64_def expo_rec rne_def Let_def)
    done
  show ?thesis using P d r by simp
qed

subsection \<open>Obstruction model\<close>

lemma atten_loop_acc:
  "atten_loop x1 y1 x2 y2 a obs
     = a * prod_list (map (\<lambda>ob. 1 - attenuation ob)
                       (filter (lineIntersectsRect x1 y1 x2 y2) obs))"
  by (induction obs arbitrary: a) (simp_all add: algebra_simps)

lemma path_prod:
  "obstacleAttenuationOnPath obs x1 y1 x2 y2
     = prod_list (map (\<lambda>ob. 1 - attenuation ob)
                   (filter (lineIntersectsRect x1 y1 x2 y2) obs))"
  by (simp add: obstacleAttenuationOnPath_def atten_loop_acc)

lemma path_prod_mset:
  "obstacleAttenuationOnPath obs x1 y1 x2 y2
     = prod_mset (image_mset (\<lambda>ob. 1 - attenuation ob)
                   (filter_mset (lineIntersectsRect x1 y1 x2 y2) (mset obs)))"
  unfolding path_prod
  by (simp add: prod_mset_prod_list [symmetric] mset_filter del: prod_mset_prod_list)

text \<open>
  The edge test never reports a contact that is not there: when the two orientation
  comparisons of \<open>segmentsIntersect\<close> both differ, the segments have a point in common.
  The parameters of that point are \<open>F\<^sub>1 / (F\<^sub>1 - F\<^sub>2)\<close> and \<open>G\<^sub>3 / (G\<^sub>3 - G\<^sub>4)\<close>,
  with the four orientation values the code compares.
\<close>

lemma param_bounds:
  fixes f1 f2 :: real
  assumes "(0 < f1) \<noteq> (0 < f2)"
  shows "f1 - f2 \<noteq> 0 \<and> 0 \<le> f1 / (f1 - f2) \<and> f1 / (f1 - f2) \<le> 1"
proof (cases "0 < f1")
  case True
  with assms have "f2 \<le> 0" by auto
  with True show ?thesis by (simp add: field_simps)
next
  case False
  with assms have "0 < f2" by auto
  with False have "f1 - f2 < 0" by simp
  with False \<open>0 < f2\<close> show ?thesis by (simp add: divide_le_eq zero_le_divide_iff)
qed

lemma segmentsIntersect_sound:
  assumes "segmentsIntersect x1 y1 x2 y2 x3 y3 x4 y4"
  shows "share_point x1 y1 x2 y2 x3 y3 x4 y4"
proof -
  define F1 where "F1 = (y4 - y1) * (x3 - x1) - (y3 - y1) * (x4 - x1)"
  define F2 where "F2 = (y4 - y2) * (x3 - x2) - (y3 - y2) * (x4 - x2)"
  define G3 where "G3 = (y3 - y1) * (x2 - x1) - (y2 - y1) * (x3 - x1)"
  define G4 where "G4 = (y4 - y1) * (x2 - x1) - (y2 - y1) * (x4 - x1)"
  define D where "D = (x2 - x1) * (y4 - y3) - (y2 - y1) * (x4 - x3)"
  have c1: "(0 < F1) \<noteq> (0 < F2)" and c2: "(0 < G3) \<noteq> (0 < G4)"
    using assms by (simp_all add: segmentsIntersect_def ccw_def F1_def F2_def G3_def G4_def)
  have FD: "F1 - F2 = D" and GD: "G3 - G4 = - D"
    by (simp_all add: F1_def F2_def G3_def G4_def D_def algebra_simps)
  from param_bounds [OF c1] have D0: "D \<noteq> 0" and s: "0 \<le> F1 / D" "F1 / D \<le> 1"
    by (simp_all add: FD)
  from param_bounds [OF c2] have t: "0 \<le> G3 / (- D)" "G3 / (- D) \<le> 1"
    by (simp_all add: GD)
  have ex: "(x1 - x3) * D + F1 * (x2 - x1) + G3 * (x4 - x3) = 0"
    and ey: "(y1 - y3) * D + F1 * (y2 - y1) + G3 * (y4 - y3) = 0"
    by (simp_all add: F1_def G3_def D_def algebra_simps)
  have "x1 + (F1 / D) * (x2 - x1) = x3 + (G3 / (- D)) * (x4 - x3)"
    using D0 ex by (simp add: field_simps)
  moreover have "y1 + (F1 / D) * (y2 - y1) = y3 + (G3 / (- D)) * (y4 - y3)"
    using D0 ey by (simp add: field_simps)
  ultimately show ?thesis
    unfolding share_point_def using s t by blast
qed

lemma reported_touches:
  "lineIntersectsRect x1 y1 x2 y2 r \<Longrightarrow> touches_boundary r x1 y1 x2 y2"
  by (auto simp add: lineIntersectsRect_def touches_boundary_def edges_def
      intro: segmentsIntersect_sound)

text \<open>
  Conversely, two segments that properly cross are reported by the orientation test: at
  the crossing parameters \<open>s\<close> and \<open>t\<close> the four orientation values are \<open>s D\<close>,
  \<open>(s - 1) D\<close>, \<open>- t D\<close> and \<open>(1 - t) D\<close>, where \<open>D\<close> is the cross product of the two
  directions.
\<close>

lemma opposite_signs:
  fixes s D :: real
  assumes "0 < s" "s < 1" "D \<noteq> 0"
  shows "(0 < s * D) \<noteq> (0 < (s - 1) * D)"
proof (cases "0 < D")
  case True
  with assms have "0 < s * D" "(s - 1) * D < 0"
    by (simp_all add: mult_neg_pos)
  then show ?thesis by simp
next
  case False
  with assms have D: "D < 0" by simp
  with assms have "s * D < 0" "0 < (s - 1) * D"
    by (simp_all add: mult_pos_neg mult_neg_neg)
  then show ?thesis by simp
qed

lemma segmentsIntersect_complete:
  assumes "proper_cross x1 y1 x2 y2 x3 y3 x4 y4"
  shows "segmentsIntersect x1 y1 x2 y2 x3 y3 x4 y4"
proof -
  define D where "D = (x2 - x1) * (y4 - y3) - (y2 - y1) * (x4 - x3)"
  from assms obtain s t where D0: "D \<noteq> 0"
    and s: "0 < s" "s < 1" and t: "0 < t" "t < 1"
    and ex: "x1 + s * (x2 - x1) = x3 + t * (x4 - x3)"
    and ey: "y1 + s * (y2 - y1) = y3 + t * (y4 - y3)"
    unfolding proper_cross_def D_def by blast
  have ux: "x3 - x1 = s * (x2 - x1) - t * (x4 - x3)"
    and uy: "y3 - y1 = s * (y2 - y1) - t * (y4 - y3)"
    using ex ey by simp_all
  have F1: "(y4 - y1) * (x3 - x1) - (y3 - y1) * (x4 - x1) = s * D"
  proof -
    have "(y4 - y1) * (x3 - x1) - (y3 - y1) * (x4 - x1)
            = (y4 - y3) * (x3 - x1) - (y3 - y1) * (x4 - x3)"
      by (simp add: algebra_simps)
    also have "\<dots> = (y4 - y3) * (s * (x2 - x1) - t * (x4 - x3))
                      - (s * (y2 - y1) - t * (y4 - y3)) * (x4 - x3)"
      by (simp only: ux uy)
    also have "\<dots> = s * D"
      by (simp add: D_def algebra_simps)
    finally show ?thesis .
  qed
  have F2: "(y4 - y2) * (x3 - x2) - (y3 - y2) * (x4 - x2) = (s - 1) * D"
  proof -
    have "(y4 - y2) * (x3 - x2) - (y3 - y2) * (x4 - x2)
            = ((y4 - y1) * (x3 - x1) - (y3 - y1) * (x4 - x1)) - D"
      by (simp add: D_def algebra_simps)
    also have "\<dots> = s * D - D" by (simp only: F1)
    also have "\<dots> = (s - 1) * D" by (simp add: algebra_simps)
    finally show ?thesis .
  qed
  have G3: "(y3 - y1) * (x2 - x1) - (y2 - y1) * (x3 - x1) = (1 - t - 1) * D"
  proof -
    have "(y3 - y1) * (x2 - x1) - (y2 - y1) * (x3 - x1)
            = (s * (y2 - y1) - t * (y4 - y3)) * (x2 - x1)
              - (y2 - y1) * (s * (x2 - x1) - t * (x4 - x3))"
      by (simp only: ux uy)
    also have "\<dots> = (1 - t - 1) * D"
      by (simp add: D_def algebra_simps)
    finally show ?thesis .
  qed
  have G4: "(y4 - y1) * (x2 - x1) - (y2 - y1) * (x4 - x1) = (1 - t) * D"
  proof -
    have "(y4 - y1) * (x2 - x1) - (y2 - y1) * (x4 - x1)
            = ((y3 - y1) * (x2 - x1) - (y2 - y1) * (x3 - x1)) + D"
      by (simp add: D_def algebra_simps)
    also have "\<dots> = (1 - t - 1) * D + D" by (simp only: G3)
    also have "\<dots> = (1 - t) * D" by (simp add: algebra_simps)
    finally show ?thesis .
  qed
  have c1: "(0 < s * D) \<noteq> (0 < (s - 1) * D)"
    using s D0 by (rule opposite_signs)
  have "0 < 1 - t" "1 - t < 1" using t by simp_all
  then have c2: "(0 < (1 - t) * D) \<noteq> (0 < (1 - t - 1) * D)"
    using D0 by (rule opposite_signs)
  have a: "ccw x1 y1 x3 y3 x4 y4 \<longleftrightarrow> 0 < s * D"
    and b: "ccw x2 y2 x3 y3 x4 y4 \<longleftrightarrow> 0 < (s - 1) * D"
    and c: "ccw x1 y1 x2 y2 x3 y3 \<longleftrightarrow> 0 < (1 - t - 1) * D"
    and d: "ccw x1 y1 x2 y2 x4 y4 \<longleftrightarrow> 0 < (1 - t) * D"
    unfolding ccw_def F1 [symmetric] F2 [symmetric] G3 [symmetric] G4 [symmetric] by auto
  show ?thesis
    unfolding segmentsIntersect_def a b c d using c1 c2 by blast
qed

lemma crossed_reported:
  "crosses_boundary r x1 y1 x2 y2 \<Longrightarrow> lineIntersectsRect x1 y1 x2 y2 r"
  by (auto simp add: lineIntersectsRect_def crosses_boundary_def edges_def
      intro: segmentsIntersect_complete)

text \<open>
  Claim C4, counterexample. The square obstacle at the origin with side 10 and
  attenuation 0.4, and the path along its lower edge: from (0, 0) to (10, 0) the factor
  is 0.6, from (10, 0) to (0, 0) it is 1. The two calls trace the same set of points, so
  no reading of "crossed" in terms of the path and the rectangle fits both results.
\<close>

theorem reversed_segment_differs:
  "obstacleAttenuationOnPath
      [\<lparr>ox = 0, oy = 0, ow = 10, oh = 10, attenuation = 4 / 10\<rparr>] 0 0 10 0 = 3 / 5
   \<and> obstacleAttenuationOnPath
      [\<lparr>ox = 0, oy = 0, ow = 10, oh = 10, attenuation = 4 / 10\<rparr>] 10 0 0 0 = 1"
  by (simp add: obstacleAttenuationOnPath_def lineIntersectsRect_def edges_def
      segmentsIntersect_def ccw_def)

text \<open>
  Claim C4. For every segment and every finite obstacle list, the factor is the product
  of \<open>1 - attenuation\<close> over the obstacles that the edge test \<open>lineIntersectsRect\<close>
  reports. Every obstacle with an edge that the segment properly crosses is reported,
  and every reported obstacle has a boundary point on the segment. Hence, when every
  listed obstacle is either properly crossed or not touched at all, the factor is the
  product of \<open>1 - attenuation\<close> over the properly crossed obstacles; it is exactly 1
  when the segment touches the boundary of no obstacle; and listing the same obstacles
  in another order gives the same factor.
\<close>

theorem obstacleAttenuationOnPath_product:
  "obstacleAttenuationOnPath obs x1 y1 x2 y2
     = prod_list (map (\<lambda>ob. 1 - attenuation ob)
                   (filter (lineIntersectsRect x1 y1 x2 y2) obs))
   \<and> (\<forall>ob. crosses_boundary ob x1 y1 x2 y2 \<longrightarrow> lineIntersectsRect x1 y1 x2 y2 ob)
   \<and> (\<forall>ob. lineIntersectsRect x1 y1 x2 y2 ob \<longrightarrow> touches_boundary ob x1 y1 x2 y2)
   \<and> ((\<forall>ob \<in> set obs. crosses_boundary ob x1 y1 x2 y2 \<or> \<not> touches_boundary ob x1 y1 x2 y2)
        \<longrightarrow> obstacleAttenuationOnPath obs x1 y1 x2 y2
            = prod_list (map (\<lambda>ob. 1 - attenuation ob)
                          (filter (\<lambda>ob. crosses_boundary ob x1 y1 x2 y2) obs)))
   \<and> ((\<forall>ob \<in> set obs. \<not> touches_boundary ob x1 y1 x2 y2)
        \<longrightarrow> obstacleAttenuationOnPath obs x1 y1 x2 y2 = 1)
   \<and> (mset obs' = mset obs
        \<longrightarrow> obstacleAttenuationOnPath obs' x1 y1 x2 y2
            = obstacleAttenuationOnPath obs x1 y1 x2 y2)"
proof (intro conjI impI allI)
  show "obstacleAttenuationOnPath obs x1 y1 x2 y2
          = prod_list (map (\<lambda>ob. 1 - attenuation ob)
                        (filter (lineIntersectsRect x1 y1 x2 y2) obs))"
    by (rule path_prod)
next
  fix ob assume "crosses_boundary ob x1 y1 x2 y2"
  then show "lineIntersectsRect x1 y1 x2 y2 ob" by (rule crossed_reported)
next
  fix ob assume "lineIntersectsRect x1 y1 x2 y2 ob"
  then show "touches_boundary ob x1 y1 x2 y2" by (rule reported_touches)
next
  assume a: "\<forall>ob \<in> set obs. crosses_boundary ob x1 y1 x2 y2 \<or> \<not> touches_boundary ob x1 y1 x2 y2"
  have "filter (lineIntersectsRect x1 y1 x2 y2) obs
          = filter (\<lambda>ob. crosses_boundary ob x1 y1 x2 y2) obs"
  proof (rule filter_cong [OF refl])
    fix ob assume "ob \<in> set obs"
    with a have "crosses_boundary ob x1 y1 x2 y2 \<or> \<not> touches_boundary ob x1 y1 x2 y2"
      by blast
    then show "lineIntersectsRect x1 y1 x2 y2 ob = crosses_boundary ob x1 y1 x2 y2"
      using crossed_reported reported_touches by blast
  qed
  then show "obstacleAttenuationOnPath obs x1 y1 x2 y2
          = prod_list (map (\<lambda>ob. 1 - attenuation ob)
                        (filter (\<lambda>ob. crosses_boundary ob x1 y1 x2 y2) obs))"
    by (simp add: path_prod)
next
  assume "\<forall>ob \<in> set obs. \<not> touches_boundary ob x1 y1 x2 y2"
  then have "\<forall>ob \<in> set obs. \<not> lineIntersectsRect x1 y1 x2 y2 ob"
    using reported_touches by blast
  then have "filter (lineIntersectsRect x1 y1 x2 y2) obs = []"
    by (simp add: filter_False)
  then show "obstacleAttenuationOnPath obs x1 y1 x2 y2 = 1"
    by (simp add: path_prod)
next
  assume "mset obs' = mset obs"
  then show "obstacleAttenuationOnPath obs' x1 y1 x2 y2
               = obstacleAttenuationOnPath obs x1 y1 x2 y2"
    by (simp add: path_prod_mset)
qed

text \<open>
  A segment from (-5, 5) to (5, 5) properly crosses the left edge of the square obstacle
  at the origin (attenuation 0.4) at its midpoint and stays clear of the square at
  (100, 100): the factor is 0.6 in either listing order, and 1 when only the far square
  is listed.
\<close>

theorem obstacleAttenuationOnPath_product_witness:
  "crosses_boundary \<lparr>ox = 0, oy = 0, ow = 10, oh = 10, attenuation = 4 / 10\<rparr> (- 5) 5 5 5
   \<and> lineIntersectsRect (- 5) 5 5 5 \<lparr>ox = 0, oy = 0, ow = 10, oh = 10, attenuation = 4 / 10\<rparr>
   \<and> touches_boundary \<lparr>ox = 0, oy = 0, ow = 10, oh = 10, attenuation = 4 / 10\<rparr> (- 5) 5 5 5
   \<and> \<not> touches_boundary
          \<lparr>ox = 100, oy = 100, ow = 10, oh = 10, attenuation = 1 / 2\<rparr> (- 5) 5 5 5
   \<and> \<not> crosses_boundary
          \<lparr>ox = 100, oy = 100, ow = 10, oh = 10, attenuation = 1 / 2\<rparr> (- 5) 5 5 5
   \<and> obstacleAttenuationOnPath
        [\<lparr>ox = 0, oy = 0, ow = 10, oh = 10, attenuation = 4 / 10\<rparr>,
         \<lparr>ox = 100, oy = 100, ow = 10, oh = 10, attenuation = 1 / 2\<rparr>] (- 5) 5 5 5
       = prod_list (map (\<lambda>ob. 1 - attenuation ob)
           (filter (\<lambda>ob. crosses_boundary ob (- 5) 5 5 5)
              [\<lparr>ox = 0, oy = 0, ow = 10, oh = 10, attenuation = 4 / 10\<rparr>,
               \<lparr>ox = 100, oy = 100, ow = 10, oh = 10, attenuation = 1 / 2\<rparr>]))
   \<and> obstacleAttenuationOnPath
        [\<lparr>ox = 0, oy = 0, ow = 10, oh = 10, attenuation = 4 / 10\<rparr>,
         \<lparr>ox = 100, oy = 100, ow = 10, oh = 10, attenuation = 1 / 2\<rparr>] (- 5) 5 5 5 = 3 / 5
   \<and> mset [\<lparr>ox = 100, oy = 100, ow = 10, oh = 10, attenuation = 1 / 2\<rparr>,
           \<lparr>ox = 0, oy = 0, ow = 10, oh = 10, attenuation = 4 / 10\<rparr>]
       = mset [\<lparr>ox = 0, oy = 0, ow = 10, oh = 10, attenuation = 4 / 10\<rparr>,
               \<lparr>ox = 100, oy = 100, ow = 10, oh = 10, attenuation = 1 / 2\<rparr>]
   \<and> obstacleAttenuationOnPath
        [\<lparr>ox = 100, oy = 100, ow = 10, oh = 10, attenuation = 1 / 2\<rparr>,
         \<lparr>ox = 0, oy = 0, ow = 10, oh = 10, attenuation = 4 / 10\<rparr>] (- 5) 5 5 5 = 3 / 5
   \<and> obstacleAttenuationOnPath
        [\<lparr>ox = 100, oy = 100, ow = 10, oh = 10, attenuation = 1 / 2\<rparr>] (- 5) 5 5 5 = 1"
proof -
  let ?sq = "\<lparr>ox = 0, oy = 0, ow = 10, oh = 10, attenuation = 4 / 10 :: real\<rparr>"
  let ?far = "\<lparr>ox = 100, oy = 100, ow = 10, oh = 10, attenuation = 1 / 2 :: real\<rparr>"
  have "proper_cross (- 5) 5 5 5 0 10 0 0"
    unfolding proper_cross_def
    by (intro conjI exI [of _ "1 / 2"]) simp_all
  then have cr: "crosses_boundary ?sq (- 5) 5 5 5"
    by (simp add: crosses_boundary_def edges_def)
  have nt: "\<not> touches_boundary ?far (- 5) 5 5 5"
    by (simp add: touches_boundary_def share_point_def edges_def)
  have m: "mset [?far, ?sq] = mset [?sq, ?far]"
    by simp
  note two = obstacleAttenuationOnPath_product [of "[?sq, ?far]" "- 5" 5 5 5 "[?far, ?sq]"]
  note one = obstacleAttenuationOnPath_product [of "[?far]" "- 5" 5 5 5 "[]"]
  have rep: "lineIntersectsRect (- 5) 5 5 5 ?sq"
    using two cr by blast
  have tb: "touches_boundary ?sq (- 5) 5 5 5"
    using two rep by blast
  have nc: "\<not> crosses_boundary ?far (- 5) 5 5 5"
    using two nt by blast
  have hyp: "\<forall>ob \<in> set [?sq, ?far].
      crosses_boundary ob (- 5) 5 5 5 \<or> \<not> touches_boundary ob (- 5) 5 5 5"
    using cr nt by simp
  have p: "obstacleAttenuationOnPath [?sq, ?far] (- 5) 5 5 5
       = prod_list (map (\<lambda>ob. 1 - attenuation ob)
           (filter (\<lambda>ob. crosses_boundary ob (- 5) 5 5 5) [?sq, ?far]))"
    using two hyp by blast
  have v: "obstacleAttenuationOnPath [?sq, ?far] (- 5) 5 5 5 = 3 / 5"
    unfolding p using cr nc by simp
  have "obstacleAttenuationOnPath [?far, ?sq] (- 5) 5 5 5
          = obstacleAttenuationOnPath [?sq, ?far] (- 5) 5 5 5"
    using two m by blast
  then have sw: "obstacleAttenuationOnPath [?far, ?sq] (- 5) 5 5 5 = 3 / 5"
    by (simp only: v)
  have "\<forall>ob \<in> set [?far]. \<not> touches_boundary ob (- 5) 5 5 5"
    using nt by simp
  then have f: "obstacleAttenuationOnPath [?far] (- 5) 5 5 5 = 1"
    using one by blast
  show ?thesis
    using cr rep tb nt nc p v m sw f by blast
qed

lemma ccw_edge1:
  "ccw px py (ox r) (oy r) (ox r + ow r) (oy r) \<longleftrightarrow> 0 < (py - oy r) * ow r"
  and ccw_edge2:
  "ccw px py (ox r + ow r) (oy r) (ox r + ow r) (oy r + oh r)
     \<longleftrightarrow> 0 < (ox r + ow r - px) * oh r"
  and ccw_edge3:
  "ccw px py (ox r + ow r) (oy r + oh r) (ox r) (oy r + oh r)
     \<longleftrightarrow> 0 < (oy r + oh r - py) * ow r"
  and ccw_edge4:
  "ccw px py (ox r) (oy r + oh r) (ox r) (oy r) \<longleftrightarrow> 0 < (px - ox r) * oh r"
  by (auto simp add: ccw_def algebra_simps)

text \<open>
  The first conjunct of \<open>segmentsIntersect\<close> compares, for each edge, on which side of
  the edge's line the two endpoints lie. When the endpoints agree for all four edges, no
  edge is reported.
\<close>

lemma same_sides_not_crossed:
  assumes "(0 < (y1 - oy r) * ow r) = (0 < (y2 - oy r) * ow r)"
    and "(0 < (ox r + ow r - x1) * oh r) = (0 < (ox r + ow r - x2) * oh r)"
    and "(0 < (oy r + oh r - y1) * ow r) = (0 < (oy r + oh r - y2) * ow r)"
    and "(0 < (x1 - ox r) * oh r) = (0 < (x2 - ox r) * oh r)"
  shows "\<not> lineIntersectsRect x1 y1 x2 y2 r"
  using assms
  by (simp add: lineIntersectsRect_def edges_def segmentsIntersect_def
      ccw_edge1 ccw_edge2 ccw_edge3 ccw_edge4)

lemma inside_not_crossed:
  assumes "strictly_inside r x1 y1" and "strictly_inside r x2 y2"
  shows "\<not> lineIntersectsRect x1 y1 x2 y2 r"
proof -
  have w: "0 < ow r" and h: "0 < oh r"
    using assms(1) by (auto simp add: strictly_inside_def)
  show ?thesis
    using assms w h
    by (intro same_sides_not_crossed) (simp_all add: strictly_inside_def zero_less_mult_iff)
qed

lemma between_horizontal:
  assumes "0 < w"
  shows "strictly_between a c (a + w) c px py \<longleftrightarrow> py = c \<and> a < px \<and> px < a + w"
    and "strictly_between (a + w) c a c px py \<longleftrightarrow> py = c \<and> a < px \<and> px < a + w"
  using assms by (auto simp add: strictly_between_def zero_less_mult_iff)

lemma between_vertical:
  assumes "0 < h"
  shows "strictly_between a c a (c + h) px py \<longleftrightarrow> px = a \<and> c < py \<and> py < c + h"
    and "strictly_between a (c + h) a c px py \<longleftrightarrow> px = a \<and> c < py \<and> py < c + h"
  using assms by (auto simp add: strictly_between_def zero_less_mult_iff)

lemma within_edge_not_crossed:
  assumes w: "0 < ow r" and h: "0 < oh r" and e: "lies_within_edge r x1 y1 x2 y2"
  shows "\<not> lineIntersectsRect x1 y1 x2 y2 r"
  using e w h
  unfolding lies_within_edge_def edges_def
  by (intro same_sides_not_crossed)
    (auto simp add: between_horizontal [OF w] between_vertical [OF h] zero_less_mult_iff)

text \<open>
  Claim C9, as stated, fails. The segment from (0, 0) to (10, 0) is the top edge of the
  square obstacle at the origin: it touches that edge collinearly and never enters the
  square, yet the test on the right-hand edge reports it and the factor 0.6 is applied.
  The segment from (-5, 5) to (5, -5) meets the square in the corner (0, 0) only and is
  reported as well. So is the segment from (0, 5), a point of the left-hand edge, to the
  inner point (5, 5), which lies in the closed square and crosses no edge.
\<close>

theorem touching_segment_counted:
  "lies_on_edge \<lparr>ox = 0, oy = 0, ow = 10, oh = 10, attenuation = 4 / 10\<rparr> 0 0 10 0
   \<and> lineIntersectsRect 0 0 10 0 \<lparr>ox = 0, oy = 0, ow = 10, oh = 10, attenuation = 4 / 10\<rparr>
   \<and> obstacleAttenuationOnPath
        [\<lparr>ox = 0, oy = 0, ow = 10, oh = 10, attenuation = 4 / 10\<rparr>] 0 0 10 0 = 3 / 5
   \<and> touches_corner_only
        \<lparr>ox = 0, oy = 0, ow = 10, oh = 10, attenuation = 4 / 10\<rparr> (- 5) 5 5 (- 5)
   \<and> lineIntersectsRect (- 5) 5 5 (- 5)
        \<lparr>ox = 0, oy = 0, ow = 10, oh = 10, attenuation = 4 / 10\<rparr>
   \<and> on_segment 0 10 0 0 0 5
   \<and> strictly_inside \<lparr>ox = 0, oy = 0, ow = 10, oh = 10, attenuation = 4 / 10\<rparr> 5 5
   \<and> lineIntersectsRect 0 5 5 5 \<lparr>ox = 0, oy = 0, ow = 10, oh = 10, attenuation = 4 / 10\<rparr>"
  by (simp add: lies_on_edge_def touches_corner_only_def on_segment_def strictly_inside_def
      edges_def lineIntersectsRect_def segmentsIntersect_def ccw_def
      obstacleAttenuationOnPath_def)

text \<open>
  Claim C9, amended. A segment whose two endpoints are strictly inside an obstacle's
  rectangle, and a segment that lies on one edge of a rectangle of positive width and
  height strictly between that edge's corners, are not reported as crossing, and the
  obstacle's factor is not applied: the path factor is the same as without that obstacle.
\<close>

theorem enclosed_or_within_edge_not_counted:
  assumes "(strictly_inside r x1 y1 \<and> strictly_inside r x2 y2)
           \<or> (0 < ow r \<and> 0 < oh r \<and> lies_within_edge r x1 y1 x2 y2)"
  shows "\<not> lineIntersectsRect x1 y1 x2 y2 r
         \<and> obstacleAttenuationOnPath (obs1 @ r # obs2) x1 y1 x2 y2
             = obstacleAttenuationOnPath (obs1 @ obs2) x1 y1 x2 y2"
proof -
  have "\<not> lineIntersectsRect x1 y1 x2 y2 r"
    using assms inside_not_crossed within_edge_not_crossed by blast
  then show ?thesis
    by (simp add: path_prod)
qed

theorem enclosed_or_within_edge_not_counted_witness:
  "strictly_inside \<lparr>ox = 0, oy = 0, ow = 10, oh = 10, attenuation = 4 / 10\<rparr> 2 3
   \<and> strictly_inside \<lparr>ox = 0, oy = 0, ow = 10, oh = 10, attenuation = 4 / 10\<rparr> 7 8
   \<and> \<not> lineIntersectsRect 2 3 7 8 \<lparr>ox = 0, oy = 0, ow = 10, oh = 10, attenuation = 4 / 10\<rparr>
   \<and> obstacleAttenuationOnPath
        ([] @ \<lparr>ox = 0, oy = 0, ow = 10, oh = 10, attenuation = 4 / 10\<rparr> # []) 2 3 7 8
       = obstacleAttenuationOnPath ([] @ []) 2 3 7 8
   \<and> lies_within_edge \<lparr>ox = 0, oy = 0, ow = 10, oh = 10, attenuation = 4 / 10\<rparr> 2 0 7 0
   \<and> \<not> lineIntersectsRect 2 0 7 0 \<lparr>ox = 0, oy = 0, ow = 10, oh = 10, attenuation = 4 / 10\<rparr>"
  using
    enclosed_or_within_edge_not_counted
      [of "\<lparr>ox = 0, oy = 0, ow = 10, oh = 10, attenuation = 4 / 10\<rparr>" 2 3 7 8 "[]" "[]"]
    enclosed_or_within_edge_not_counted
      [of "\<lparr>ox = 0, oy = 0, ow = 10, oh = 10, attenuation = 4 / 10\<rparr>" 2 0 7 0 "[]" "[]"]
  by (simp add: strictly_inside_def lies_within_edge_def strictly_between_def edges_def)

subsection \<open>Smoothing filter\<close>

lemma returned_rssi:
  "sm_rssi (fst (updateSmoothed v u n tbl))
     = lerp (sm_rssi (prev_entry v n tbl)) (targetRssi v u n) (8 / 100)"
  by (simp add: updateSmoothed_def Let_def)

lemma prev_after_update:
  "prev_entry v n (snd (updateSmoothed v u n tbl)) = fst (updateSmoothed v u n tbl)"
  by (simp add: updateSmoothed_def Let_def prev_entry_def)

lemma prev_table_after_Suc:
  "prev_entry v n (table_after v us n tbl (Suc k)) = returned v us n tbl k"
  by (simp add: returned_def prev_after_update)

lemma radial_step:
  "rssi n - sm_rssi (fst (updateSmoothed Radial u n tbl))
     = (92 / 100) * (rssi n - sm_rssi (prev_entry Radial n tbl))"
  by (simp add: returned_rssi targetRssi_def lerp_def field_simps)

lemma radial_error:
  "rssi n - sm_rssi (returned Radial us n tbl k)
     = (92 / 100) ^ Suc k * (rssi n - sm_rssi (prev_entry Radial n tbl))"
proof (induction k)
  case 0
  show ?case by (simp add: returned_def radial_step)
next
  case (Suc k)
  have "rssi n - sm_rssi (returned Radial us n tbl (Suc k))
          = (92 / 100) * (rssi n
              - sm_rssi (prev_entry Radial n (table_after Radial us n tbl (Suc k))))"
    unfolding returned_def by (rule radial_step)
  also have "\<dots> = (92 / 100) * (rssi n - sm_rssi (returned Radial us n tbl k))"
    by (simp only: prev_table_after_Suc)
  finally show ?case using Suc.IH by simp
qed

lemma radial_between:
  "min (sm_rssi (prev_entry Radial n tbl)) (rssi n)
     \<le> sm_rssi (fst (updateSmoothed Radial u n tbl))
   \<and> sm_rssi (fst (updateSmoothed Radial u n tbl))
     \<le> max (sm_rssi (prev_entry Radial n tbl)) (rssi n)"
  by (auto simp add: returned_rssi targetRssi_def lerp_def min_def max_def field_simps)

lemma radial_limit:
  "(\<lambda>k. sm_rssi (returned Radial us n tbl k)) \<longlonglongrightarrow> rssi n"
proof -
  have "(\<lambda>k. (92 / 100 :: real) ^ Suc k) \<longlonglongrightarrow> 0"
    by (intro LIMSEQ_power_zero [THEN LIMSEQ_Suc]) simp
  then have "(\<lambda>k. rssi n - (92 / 100) ^ Suc k * (rssi n - sm_rssi (prev_entry Radial n tbl)))
               \<longlonglongrightarrow> rssi n - 0 * (rssi n - sm_rssi (prev_entry Radial n tbl))"
    by (intro tendsto_intros)
  moreover have "\<And>k. sm_rssi (returned Radial us n tbl k)
                   = rssi n - (92 / 100) ^ Suc k * (rssi n - sm_rssi (prev_entry Radial n tbl))"
  proof -
    fix k
    show "sm_rssi (returned Radial us n tbl k)
            = rssi n - (92 / 100) ^ Suc k * (rssi n - sm_rssi (prev_entry Radial n tbl))"
      using radial_error [of n us tbl k] by linarith
  qed
  ultimately show ?thesis by simp
qed

text \<open>
  Claim C6, as stated, fails in the trilateration scripts. With the draw 0.75 the jitter
  is +1 dBm: the first call for a network whose raw signal is -50 returns -49.92, above
  both the previous smoothed value (the seed, -50) and the raw input -50.
\<close>

theorem trilateration_update_overshoots:
  "sm_rssi (prev_entry Trilateration
       \<lparr>bssid = ''aa'', ssid = ''net'', band = ''5 GHz'', rssi = - 50\<rparr> Map.empty) = - 50
   \<and> sm_rssi (fst (updateSmoothed Trilateration (3 / 4)
       \<lparr>bssid = ''aa'', ssid = ''net'', band = ''5 GHz'', rssi = - 50\<rparr> Map.empty))
     = - 4992 / 100"
  by (simp add: updateSmoothed_def Let_def prev_entry_def targetRssi_def rand_def lerp_def)

text \<open>
  Claim C6, amended to the radial scripts, whose blend target is the raw signal itself.
  For every emitter, every prior table and every number of calls with the same network
  reading: the distance of the returned signal to the raw signal is the prior distance
  times 0.92 to the number of calls made; every returned signal lies between the
  smoothed value before that call and the raw signal; and the returned signals converge
  to the raw signal.
\<close>

theorem radial_update_converges:
  "rssi n - sm_rssi (returned Radial us n smoothed k)
     = (92 / 100) ^ Suc k * (rssi n - sm_rssi (prev_entry Radial n smoothed))
   \<and> min (sm_rssi (prev_entry Radial n (table_after Radial us n smoothed k))) (rssi n)
       \<le> sm_rssi (returned Radial us n smoothed k)
   \<and> sm_rssi (returned Radial us n smoothed k)
       \<le> max (sm_rssi (prev_entry Radial n (table_after Radial us n smoothed k))) (rssi n)
   \<and> (\<lambda>k. sm_rssi (returned Radial us n smoothed k)) \<longlonglongrightarrow> rssi n"
  using radial_error [of n us smoothed k]
    radial_between [of n "table_after Radial us n smoothed k" "us k"]
    radial_limit [of us n smoothed]
  by (simp add: returned_def)

text \<open>Two calls from a smoothed value of -60 toward a raw signal of -50 leave an error
  of \<open>10 \<times> 0.92\<^sup>2 = 8.464\<close>.\<close>

theorem radial_update_converges_witness:
  "- 50 - sm_rssi (returned Radial (\<lambda>k. 0)
        \<lparr>bssid = ''aa'', ssid = ''net'', band = ''5 GHz'', rssi = - 50\<rparr>
        [''aa'' \<mapsto> \<lparr>sm_rssi = - 60, sm_dist = 10\<rparr>] 1) = 8464 / 1000"
  using radial_update_converges
    [of "\<lparr>bssid = ''aa'', ssid = ''net'', band = ''5 GHz'', rssi = - 50\<rparr>" "\<lambda>k. 0"
        "[''aa'' \<mapsto> \<lparr>sm_rssi = - 60, sm_dist = 10\<rparr>]" 1]
  by (simp add: prev_entry_def power2_eq_square)

text \<open>
  Claim C8. In the trilateration scripts the blend target is the raw signal plus
  \<open>rand(-2, 2)\<close>, which lies in [-2, 2] for every draw of the random source, and the
  returned signal depends on the draw: from the same prior table and the same network
  reading, two different draws give two different smoothed signals. (That the draws are
  uniform and independent is a property of the random source, which the model takes as
  an input.)
\<close>

theorem trilateration_update_depends_on_draw:
  "targetRssi Trilateration u n = rssi n + rand u (- 2) 2
   \<and> (0 \<le> u \<and> u < 1 \<longrightarrow> - 2 \<le> rand u (- 2) 2 \<and> rand u (- 2) 2 \<le> 2)
   \<and> (u1 \<noteq> u2 \<longrightarrow>
        sm_rssi (fst (updateSmoothed Trilateration u1 n smoothed))
          \<noteq> sm_rssi (fst (updateSmoothed Trilateration u2 n smoothed)))"
  by (simp add: returned_rssi targetRssi_def rand_def lerp_def)

theorem trilateration_update_depends_on_draw_witness:
  "(0::real) \<le> 1 / 4 \<and> (1 / 4 :: real) < 1
   \<and> - 2 \<le> rand (1 / 4) (- 2) 2 \<and> rand (1 / 4) (- 2) 2 \<le> 2
   \<and> (1 / 4 :: real) \<noteq> 3 / 4
   \<and> sm_rssi (fst (updateSmoothed Trilateration (1 / 4)
         \<lparr>bssid = ''aa'', ssid = ''net'', band = ''5 GHz'', rssi = - 50\<rparr> Map.empty))
       \<noteq> sm_rssi (fst (updateSmoothed Trilateration (3 / 4)
         \<lparr>bssid = ''aa'', ssid = ''net'', band = ''5 GHz'', rssi = - 50\<rparr> Map.empty))"
  using trilateration_update_depends_on_draw
    [of "1 / 4" "\<lparr>bssid = ''aa'', ssid = ''net'', band = ''5 GHz'', rssi = - 50\<rparr>"
        "1 / 4" "3 / 4" Map.empty]
  by simp

subsection \<open>Radial layout: angle assignment\<close>

lemma golden_pos: "0 < goldenAngleIncrement"
proof -
  have "sqrt 5 < sqrt (3\<^sup>2)" by (subst real_sqrt_less_iff) simp
  then have "sqrt 5 < 3" by simp
  then show ?thesis by (simp add: goldenAngleIncrement_def)
qed

text \<open>The table keeps distinct keys, and its k-th entry holds k times the increment.\<close>

lemma assignAngle_inv:
  assumes "distinct (map fst T)"
    and "map snd T = map (\<lambda>k. real k * goldenAngleIncrement) [0 ..< length T]"
  shows "distinct (map fst (assignAngle T b))
       \<and> map snd (assignAngle T b)
           = map (\<lambda>k. real k * goldenAngleIncrement) [0 ..< length (assignAngle T b)]"
  using assms by (auto simp add: assignAngle_def)

lemma assignAngles_inv:
  assumes "distinct (map fst T)"
    and "map snd T = map (\<lambda>k. real k * goldenAngleIncrement) [0 ..< length T]"
  shows "distinct (map fst (assignAngles T bs))
       \<and> map snd (assignAngles T bs)
           = map (\<lambda>k. real k * goldenAngleIncrement) [0 ..< length (assignAngles T bs)]"
  using assms unfolding assignAngles_def
proof (induction bs arbitrary: T)
  case Nil
  then show ?case by simp
next
  case (Cons b bs)
  from assignAngle_inv [OF Cons.prems, of b] Cons.IH [of "assignAngle T b"]
  show ?case by simp
qed

lemma multiples_distinct:
  "distinct (map (\<lambda>k. real k * goldenAngleIncrement) [0 ..< m])"
proof -
  have "inj_on (\<lambda>k. real k * goldenAngleIncrement) (set [0 ..< m])"
    using golden_pos by (auto simp add: inj_on_def)
  then show ?thesis by (simp add: distinct_map)
qed

lemma stable_step: "map_of T b' = Some a \<Longrightarrow> map_of (assignAngle T b) b' = Some a"
  by (auto simp add: assignAngle_def map_add_Some_iff)

lemma stable_run: "map_of T b' = Some a \<Longrightarrow> map_of (assignAngles T bs) b' = Some a"
  unfolding assignAngles_def
  by (induction bs arbitrary: T) (simp_all add: stable_step)

text \<open>
  Claim C7. Starting from the empty angle table (the initial state, and the state after
  a reset), for every sequence of emitter appearances of any length, hence also up to
  1000: the k-th entry of the table holds the angle \<open>k \<cdot> \<pi>(3 - \<surd>5)\<close>, an angle once
  assigned is not changed by later appearances, and two distinct emitters never hold
  the same angle.
\<close>

theorem angles_never_collide:
  assumes "map_of (assignAngles [] bs) b1 = Some a1"
    and "map_of (assignAngles [] bs) b2 = Some a2"
    and "b1 \<noteq> b2"
  shows "a1 \<noteq> a2
       \<and> map snd (assignAngles [] bs)
           = map (\<lambda>k. real k * goldenAngleIncrement) [0 ..< length (assignAngles [] bs)]
       \<and> map_of (assignAngles (assignAngles [] bs) bs') b1 = Some a1"
proof -
  let ?T = "assignAngles [] bs"
  have inv: "distinct (map fst ?T)
             \<and> map snd ?T = map (\<lambda>k. real k * goldenAngleIncrement) [0 ..< length ?T]"
    by (rule assignAngles_inv) simp_all
  then have "distinct (map snd ?T)"
    using multiples_distinct [of "length ?T"] by simp
  then have inj: "inj_on snd (set ?T)"
    by (simp add: distinct_map)
  have mem: "(b1, a1) \<in> set ?T" "(b2, a2) \<in> set ?T"
    using assms(1,2) by (auto dest: map_of_SomeD)
  have "a1 \<noteq> a2"
  proof
    assume "a1 = a2"
    with inj mem have "(b1, a1) = (b2, a2)"
      by (intro inj_onD [of snd "set ?T"]) simp_all
    with assms(3) show False by simp
  qed
  then show ?thesis
    using inv stable_run [OF assms(1), of bs'] by simp
qed

theorem angles_never_collide_witness:
  "map_of (assignAngles [] [''aa'', ''bb'', ''aa'']) ''aa'' = Some 0
   \<and> map_of (assignAngles [] [''aa'', ''bb'', ''aa'']) ''bb'' = Some goldenAngleIncrement
   \<and> ''aa'' \<noteq> ''bb''
   \<and> 0 \<noteq> goldenAngleIncrement
   \<and> map_of (assignAngles (assignAngles [] [''aa'', ''bb'', ''aa'']) [''cc'', ''aa'']) ''aa''
       = Some 0"
proof -
  have a: "map_of (assignAngles [] [''aa'', ''bb'', ''aa'']) ''aa'' = Some 0"
    and b: "map_of (assignAngles [] [''aa'', ''bb'', ''aa'']) ''bb'' = Some goldenAngleIncrement"
    by (simp_all add: assignAngles_def assignAngle_def)
  have c: "''aa'' \<noteq> ''bb''" by simp
  show ?thesis
    using a b c angles_never_collide [OF a b c, of "[''cc'', ''aa'']"] by simp
qed

subsection \<open>Radial layout: repulsion relaxation\<close>

lemma sum_list_update_real:
  fixes xs :: "real list"
  shows "k < length xs \<Longrightarrow> sum_list (xs[k := v]) = sum_list xs + v - xs ! k"
  by (induction xs arbitrary: k) (auto split: nat.split)

lemma repel_length: "length (repel i j nodes) = length nodes"
  by (simp add: repel_def Let_def)

text \<open>One pairwise adjustment takes from one node what it gives to the other.\<close>

lemma repel_sum_nx:
  assumes "i < j" and "j < length nodes"
  shows "sum_list (map nx (repel i j nodes)) = sum_list (map nx nodes)"
  using assms
  by (simp add: repel_def Let_def map_update sum_list_update_real nth_list_update)

lemma repel_sum_ny:
  assumes "i < j" and "j < length nodes"
  shows "sum_list (map ny (repel i j nodes)) = sum_list (map ny nodes)"
  using assms
  by (simp add: repel_def Let_def map_update sum_list_update_real nth_list_update)

lemma fold_repel:
  assumes "\<forall>j \<in> set js. i < j \<and> j < length nodes"
  shows "length (fold (repel i) js nodes) = length nodes
       \<and> sum_list (map nx (fold (repel i) js nodes)) = sum_list (map nx nodes)
       \<and> sum_list (map ny (fold (repel i) js nodes)) = sum_list (map ny nodes)"
  using assms
  by (induction js arbitrary: nodes) (simp_all add: repel_length repel_sum_nx repel_sum_ny)

lemma loop_j_keeps:
  "length (loop_j i nodes) = length nodes
   \<and> sum_list (map nx (loop_j i nodes)) = sum_list (map nx nodes)
   \<and> sum_list (map ny (loop_j i nodes)) = sum_list (map ny nodes)"
  unfolding loop_j_def by (rule fold_repel) simp

lemma fold_loop_j:
  "length (fold loop_j is nodes) = length nodes
   \<and> sum_list (map nx (fold loop_j is nodes)) = sum_list (map nx nodes)
   \<and> sum_list (map ny (fold loop_j is nodes)) = sum_list (map ny nodes)"
  by (induction "is" arbitrary: nodes) (simp_all add: loop_j_keeps)

lemma loop_i_keeps:
  "length (loop_i nodes) = length nodes
   \<and> sum_list (map nx (loop_i nodes)) = sum_list (map nx nodes)
   \<and> sum_list (map ny (loop_i nodes)) = sum_list (map ny nodes)"
  unfolding loop_i_def by (rule fold_loop_j)

lemma fold_loop_i:
  "length (fold (\<lambda>iter. loop_i) ks nodes) = length nodes
   \<and> sum_list (map nx (fold (\<lambda>iter. loop_i) ks nodes)) = sum_list (map nx nodes)
   \<and> sum_list (map ny (fold (\<lambda>iter. loop_i) ks nodes)) = sum_list (map ny nodes)"
  by (induction ks arbitrary: nodes) (simp_all add: loop_i_keeps)

text \<open>
  Claim C10. For every node list, one pass over all pairs keeps the number of nodes, the
  sum of the x coordinates and the sum of the y coordinates, and so does the whole
  relaxation of five passes: the mean x and the mean y are unchanged.
\<close>

theorem relax_preserves_centroid:
  "length (loop_i nodes) = length nodes
   \<and> sum_list (map nx (loop_i nodes)) = sum_list (map nx nodes)
   \<and> sum_list (map ny (loop_i nodes)) = sum_list (map ny nodes)
   \<and> length (relax nodes) = length nodes
   \<and> sum_list (map nx (relax nodes)) = sum_list (map nx nodes)
   \<and> sum_list (map ny (relax nodes)) = sum_list (map ny nodes)
   \<and> centroid (relax nodes) = centroid nodes"
  unfolding relax_def centroid_def
  using loop_i_keeps [of nodes] fold_loop_i [of "[0 ..< iterations]" nodes] by simp

text \<open>Two nodes 5 units apart are pushed apart in every pass; their mean stays (1.5, 2).\<close>

theorem relax_preserves_centroid_witness:
  "centroid (relax [\<lparr>nid = ''aa'', nx = 0, ny = 0, n_rssi = - 50, n_dist = 3\<rparr>,
                    \<lparr>nid = ''bb'', nx = 3, ny = 4, n_rssi = - 60, n_dist = 7\<rparr>]) = (3 / 2, 2)"
  using relax_preserves_centroid
    [of "[\<lparr>nid = ''aa'', nx = 0, ny = 0, n_rssi = - 50, n_dist = 3\<rparr>,
          \<lparr>nid = ''bb'', nx = 3, ny = 4, n_rssi = - 60, n_dist = 7\<rparr>]"]
  by (simp add: centroid_def)

subsection \<open>Rolling analysis: scoring\<close>

lemma score_entry_cases:
  "score_entry v best e =
     (if length (snd e) < 5 then best
      else case best of
             None \<Rightarrow> Some (candidate_of v (fst e) (snd e))
           | Some bst \<Rightarrow>
               if score v (snd e) > c_score bst
               then Some (candidate_of v (fst e) (snd e)) else best)"
  by (simp add: score_entry_def Let_def)

lemma candidate_score: "c_score (candidate_of v b arr) = score v arr"
  by (simp add: candidate_of_def)

lemma foldl_None_iff:
  "foldl (score_entry v) best w = None
     \<longleftrightarrow> best = None \<and> (\<forall>e \<in> set w. length (snd e) < 5)"
  by (induction w arbitrary: best)
    (auto simp add: score_entry_cases split: option.splits if_splits)

text \<open>The final candidate is the initial one or was built from a window entry that
  holds at least 5 samples.\<close>

lemma foldl_origin:
  "foldl (score_entry v) best w = Some r \<Longrightarrow>
     best = Some r
     \<or> (\<exists>e \<in> set w. 5 \<le> length (snd e) \<and> r = candidate_of v (fst e) (snd e))"
proof (induction w arbitrary: best)
  case Nil
  then show ?case by simp
next
  case (Cons e w)
  from Cons.prems have "foldl (score_entry v) (score_entry v best e) w = Some r" by simp
  from Cons.IH [OF this] show ?case
    by (auto simp add: score_entry_cases split: option.splits if_splits)
qed

text \<open>The score held in \<^verbatim>\<open>best\<close> never decreases along the iteration.\<close>

lemma foldl_grows:
  "foldl (score_entry v) (Some b) w = Some r \<Longrightarrow> c_score b \<le> c_score r"
proof (induction w arbitrary: b)
  case Nil
  then show ?case by simp
next
  case (Cons e w)
  show ?case
  proof (cases "score_entry v (Some b) e = Some b")
    case True
    with Cons show ?thesis by simp
  next
    case False
    then have s: "score_entry v (Some b) e = Some (candidate_of v (fst e) (snd e))"
      and lt: "c_score b < score v (snd e)"
      by (auto simp add: score_entry_cases split: if_splits)
    from Cons.prems s
    have "foldl (score_entry v) (Some (candidate_of v (fst e) (snd e))) w = Some r"
      by simp
    from Cons.IH [OF this] lt show ?thesis by (simp add: candidate_score)
  qed
qed

lemma foldl_maximal:
  "foldl (score_entry v) best w = Some r \<Longrightarrow> e \<in> set w \<Longrightarrow> 5 \<le> length (snd e)
     \<Longrightarrow> score v (snd e) \<le> c_score r"
proof (induction w arbitrary: best)
  case Nil
  then show ?case by simp
next
  case (Cons a w)
  from Cons.prems(1) have f: "foldl (score_entry v) (score_entry v best a) w = Some r"
    by simp
  show ?case
  proof (cases "e \<in> set w")
    case True
    from Cons.IH [OF f True Cons.prems(3)] show ?thesis .
  next
    case False
    with Cons.prems(2) have ea: "e = a" by simp
    have "\<exists>c. score_entry v best a = Some c \<and> score v (snd a) \<le> c_score c"
      using Cons.prems(3) ea
      by (cases best) (simp_all add: score_entry_cases candidate_score not_less)
    then obtain c where c: "score_entry v best a = Some c"
      and le: "score v (snd a) \<le> c_score c"
      by blast
    from f c have "c_score c \<le> c_score r" by (simp add: foldl_grows)
    with le ea show ?thesis by simp
  qed
qed

lemma suggest_props:
  "(suggest v w = None \<longleftrightarrow> (\<forall>e \<in> set w. length (snd e) < 5))
   \<and> (\<forall>r. suggest v w = Some r \<longrightarrow>
         (\<exists>e \<in> set w. 5 \<le> length (snd e) \<and> r = candidate_of v (fst e) (snd e))
         \<and> c_score r = c_avgRssi r - scoreWeight v * c_avgDist r
         \<and> (\<forall>e \<in> set w. 5 \<le> length (snd e) \<longrightarrow> score v (snd e) \<le> c_score r)
         \<and> (distinct (map fst w)
              \<longrightarrow> (\<forall>e \<in> set w. length (snd e) < 5 \<longrightarrow> fst e \<noteq> c_bssid r)))"
proof (intro conjI allI impI)
  show "suggest v w = None \<longleftrightarrow> (\<forall>e \<in> set w. length (snd e) < 5)"
    by (simp add: suggest_def foldl_None_iff)
next
  fix r assume r: "suggest v w = Some r"
  then obtain e where e: "e \<in> set w" "5 \<le> length (snd e)"
    "r = candidate_of v (fst e) (snd e)"
    using foldl_origin [of v None w r] by (auto simp add: suggest_def)
  show "\<exists>e \<in> set w. 5 \<le> length (snd e) \<and> r = candidate_of v (fst e) (snd e)"
    using e by blast
  show "c_score r = c_avgRssi r - scoreWeight v * c_avgDist r"
    using e(3) by (simp add: candidate_of_def score_def)
  show "\<forall>e \<in> set w. 5 \<le> length (snd e) \<longrightarrow> score v (snd e) \<le> c_score r"
    using r foldl_maximal [of v None w r] by (auto simp add: suggest_def)
  show "\<forall>e' \<in> set w. length (snd e') < 5 \<longrightarrow> fst e' \<noteq> c_bssid r"
    if d: "distinct (map fst w)"
  proof (intro ballI impI notI)
    fix e' assume e': "e' \<in> set w" "length (snd e') < 5" "fst e' = c_bssid r"
    have "fst e' = fst e" using e'(3) e(3) by (simp add: candidate_of_def)
    with d e'(1) e(1) have "e' = e" by (meson distinct_map inj_onD)
    with e'(2) e(2) show False by simp
  qed
qed

text \<open>The window table keeps its keys distinct, as a \<^verbatim>\<open>Map\<close> does.\<close>

lemma keys_window_set:
  "map fst (window_set w k arr)
     = (if k \<in> fst ` set w then map fst w else map fst w @ [k])"
  by (induction w) auto

lemma distinct_collect:
  "distinct (map fst w) \<Longrightarrow> distinct (map fst (collect v ts sm w n))"
  by (simp add: collect_def Let_def keys_window_set)

lemma distinct_collect_all:
  "distinct (map fst w) \<Longrightarrow> distinct (map fst (foldl (collect v ts sm) w ns))"
  by (induction ns arbitrary: w) (simp_all add: distinct_collect)

text \<open>The two averages of the code are the arithmetic means of the window.\<close>

lemma foldl_sum_list:
  "foldl (\<lambda>s a. s + f a) z xs = z + sum_list (map f xs)" for z :: real
  by (induction xs arbitrary: z) simp_all

lemma avgRssi_mean: "avgRssi arr = sum_list (map sa_rssi arr) / real (length arr)"
  by (simp add: avgRssi_def foldl_sum_list)

lemma avgDist_mean: "avgDist arr = sum_list (map sa_dist arr) / real (length arr)"
  by (simp add: avgDist_def foldl_sum_list)

text \<open>
  Claim C5. A run of \<open>step\<close> scores exactly when the duration has elapsed, on the
  window table \<open>w\<close> as it stands after that run's collection, whose keys are distinct
  when they were before. The scoring gives no recommendation exactly when no window
  holds 5 samples. Otherwise the recommended candidate was built from a window entry
  with at least 5 samples: it carries that entry's key, the arithmetic mean of the
  signal values of its samples and the arithmetic mean of their distances; its score is
  its average signal minus k times its average distance (k = 2 in the trilateration
  scripts, k = 1 in the radial scripts); for no window with at least 5 samples is the
  mean signal minus k times the mean distance larger; and no emitter whose window holds
  fewer than 5 samples is the recommended one.
\<close>

theorem suggest_best:
  assumes "step v t ts liveNetworks smoothed analysisWindow = (w, res)"
  shows "(res = None \<longleftrightarrow> t < DURATION)
       \<and> (DURATION \<le> t \<longrightarrow> res = Some (suggest v w))
       \<and> (distinct (map fst analysisWindow) \<longrightarrow> distinct (map fst w))
       \<and> (suggest v w = None \<longleftrightarrow> (\<forall>e \<in> set w. length (snd e) < 5))
       \<and> (\<forall>r. suggest v w = Some r \<longrightarrow>
             (\<exists>e \<in> set w. 5 \<le> length (snd e) \<and> r = candidate_of v (fst e) (snd e)
                 \<and> c_bssid r = fst e
                 \<and> c_avgRssi r = sum_list (map sa_rssi (snd e)) / real (length (snd e))
                 \<and> c_avgDist r = sum_list (map sa_dist (snd e)) / real (length (snd e)))
             \<and> c_score r = c_avgRssi r - scoreWeight v * c_avgDist r
             \<and> (\<forall>e \<in> set w. 5 \<le> length (snd e) \<longrightarrow>
                   sum_list (map sa_rssi (snd e)) / real (length (snd e))
                     - scoreWeight v * (sum_list (map sa_dist (snd e)) / real (length (snd e)))
                   \<le> c_score r)
             \<and> (distinct (map fst w)
                  \<longrightarrow> (\<forall>e \<in> set w. length (snd e) < 5 \<longrightarrow> fst e \<noteq> c_bssid r)))
       \<and> scoreWeight Trilateration = 2 \<and> scoreWeight Radial = 1"
proof -
  have w: "w = foldl (collect v ts smoothed) analysisWindow liveNetworks"
    and res: "res = (if t < DURATION then None else Some (suggest v w))"
    using assms by (auto simp add: step_def Let_def)
  have a: "res = None \<longleftrightarrow> t < DURATION"
    and b: "DURATION \<le> t \<longrightarrow> res = Some (suggest v w)"
    using res by simp_all
  have c: "distinct (map fst analysisWindow) \<longrightarrow> distinct (map fst w)"
    unfolding w by (simp add: distinct_collect_all)
  have k: "scoreWeight Trilateration = 2" "scoreWeight Radial = 1"
    by (simp_all add: scoreWeight_def)
  note p = suggest_props [of v w]
  have d: "suggest v w = None \<longleftrightarrow> (\<forall>e \<in> set w. length (snd e) < 5)"
    using p by blast
  have e: "(\<exists>e \<in> set w. 5 \<le> length (snd e) \<and> r = candidate_of v (fst e) (snd e)
                 \<and> c_bssid r = fst e
                 \<and> c_avgRssi r = sum_list (map sa_rssi (snd e)) / real (length (snd e))
                 \<and> c_avgDist r = sum_list (map sa_dist (snd e)) / real (length (snd e)))
             \<and> c_score r = c_avgRssi r - scoreWeight v * c_avgDist r
             \<and> (\<forall>e \<in> set w. 5 \<le> length (snd e) \<longrightarrow>
                   sum_list (map sa_rssi (snd e)) / real (length (snd e))
                     - scoreWeight v * (sum_list (map sa_dist (snd e)) / real (length (snd e)))
                   \<le> c_score r)
             \<and> (distinct (map fst w)
                  \<longrightarrow> (\<forall>e \<in> set w. length (snd e) < 5 \<longrightarrow> fst e \<noteq> c_bssid r))"
    if r: "suggest v w = Some r" for r
  proof (intro conjI)
    from p r obtain e where e: "e \<in> set w" "5 \<le> length (snd e)"
      "r = candidate_of v (fst e) (snd e)"
      by blast
    have "c_bssid r = fst e"
      and "c_avgRssi r = sum_list (map sa_rssi (snd e)) / real (length (snd e))"
      and "c_avgDist r = sum_list (map sa_dist (snd e)) / real (length (snd e))"
      unfolding e(3) by (simp_all add: candidate_of_def avgRssi_mean avgDist_mean)
    with e show "\<exists>e \<in> set w. 5 \<le> length (snd e) \<and> r = candidate_of v (fst e) (snd e)
                 \<and> c_bssid r = fst e
                 \<and> c_avgRssi r = sum_list (map sa_rssi (snd e)) / real (length (snd e))
                 \<and> c_avgDist r = sum_list (map sa_dist (snd e)) / real (length (snd e))"
      by blast
    show "c_score r = c_avgRssi r - scoreWeight v * c_avgDist r"
      using p r by blast
    have "\<forall>e \<in> set w. 5 \<le> length (snd e) \<longrightarrow> score v (snd e) \<le> c_score r"
      using p r by blast
    then show "\<forall>e \<in> set w. 5 \<le> length (snd e) \<longrightarrow>
                   sum_list (map sa_rssi (snd e)) / real (length (snd e))
                     - scoreWeight v * (sum_list (map sa_dist (snd e)) / real (length (snd e)))
                   \<le> c_score r"
      by (simp add: score_def avgRssi_mean avgDist_mean)
    show "distinct (map fst w)
            \<longrightarrow> (\<forall>e \<in> set w. length (snd e) < 5 \<longrightarrow> fst e \<noteq> c_bssid r)"
      using p r by blast
  qed
  show ?thesis
    using a b c d e k by blast
qed

text \<open>
  A trilateration script at the end of the duration. The live emitter \<^verbatim>\<open>cc\<close> gets its
  fourth sample in this run; its means are -30 dBm and 1 m, it would score -32, the
  highest value, and is passed over. Of the two emitters with 5 samples, \<^verbatim>\<open>aa\<close> has
  the means -40 dBm and 5 m (score -50) and wins over \<^verbatim>\<open>bb\<close> with the means -70 dBm
  and 30 m (score -130), although the first sample of \<^verbatim>\<open>bb\<close> alone would score -34 and
  the first sample of \<^verbatim>\<open>aa\<close> alone -80.
\<close>

theorem suggest_best_witness:
  "step Trilateration 30000 1000
     [\<lparr>bssid = ''cc'', ssid = ''near'', band = ''5 GHz'', rssi = - 30\<rparr>]
     [''cc'' \<mapsto> \<lparr>sm_rssi = - 30, sm_dist = 1\<rparr>]
     [(''cc'',
       [\<lparr>sa_t = 0, sa_rssi = - 31, sa_dist = 3 / 2,
            sa_meta = \<lparr>bssid = ''cc'', ssid = ''near'', band = ''5 GHz'', rssi = - 31\<rparr>\<rparr>,
        \<lparr>sa_t = 300, sa_rssi = - 30, sa_dist = 1,
            sa_meta = \<lparr>bssid = ''cc'', ssid = ''near'', band = ''5 GHz'', rssi = - 30\<rparr>\<rparr>,
        \<lparr>sa_t = 600, sa_rssi = - 29, sa_dist = 1 / 2,
            sa_meta = \<lparr>bssid = ''cc'', ssid = ''near'', band = ''5 GHz'', rssi = - 29\<rparr>\<rparr>]),
      (''bb'',
       [\<lparr>sa_t = 0, sa_rssi = - 30, sa_dist = 2,
            sa_meta = \<lparr>bssid = ''bb'', ssid = ''far'', band = ''2.4 GHz'', rssi = - 30\<rparr>\<rparr>,
        \<lparr>sa_t = 100, sa_rssi = - 80, sa_dist = 37,
            sa_meta = \<lparr>bssid = ''bb'', ssid = ''far'', band = ''2.4 GHz'', rssi = - 80\<rparr>\<rparr>,
        \<lparr>sa_t = 200, sa_rssi = - 80, sa_dist = 37,
            sa_meta = \<lparr>bssid = ''bb'', ssid = ''far'', band = ''2.4 GHz'', rssi = - 80\<rparr>\<rparr>,
        \<lparr>sa_t = 300, sa_rssi = - 80, sa_dist = 37,
            sa_meta = \<lparr>bssid = ''bb'', ssid = ''far'', band = ''2.4 GHz'', rssi = - 80\<rparr>\<rparr>,
        \<lparr>sa_t = 400, sa_rssi = - 80, sa_dist = 37,
            sa_meta = \<lparr>bssid = ''bb'', ssid = ''far'', band = ''2.4 GHz'', rssi = - 80\<rparr>\<rparr>]),
      (''aa'',
       [\<lparr>sa_t = 0, sa_rssi = - 60, sa_dist = 10,
            sa_meta = \<lparr>bssid = ''aa'', ssid = ''good'', band = ''5 GHz'', rssi = - 60\<rparr>\<rparr>,
        \<lparr>sa_t = 100, sa_rssi = - 35, sa_dist = 4,
            sa_meta = \<lparr>bssid = ''aa'', ssid = ''good'', band = ''5 GHz'', rssi = - 35\<rparr>\<rparr>,
        \<lparr>sa_t = 200, sa_rssi = - 35, sa_dist = 4,
            sa_meta = \<lparr>bssid = ''aa'', ssid = ''good'', band = ''5 GHz'', rssi = - 35\<rparr>\<rparr>,
        \<lparr>sa_t = 300, sa_rssi = - 35, sa_dist = 4,
            sa_meta = \<lparr>bssid = ''aa'', ssid = ''good'', band = ''5 GHz'', rssi = - 35\<rparr>\<rparr>,
        \<lparr>sa_t = 400, sa_rssi = - 35, sa_dist = 3,
            sa_meta = \<lparr>bssid = ''aa'', ssid = ''good'', band = ''5 GHz'', rssi = - 34\<rparr>\<rparr>])]
   = ([(''cc'',
       [\<lparr>sa_t = 0, sa_rssi = - 31, sa_dist = 3 / 2,
            sa_meta = \<lparr>bssid = ''cc'', ssid = ''near'', band = ''5 GHz'', rssi = - 31\<rparr>\<rparr>,
        \<lparr>sa_t = 300, sa_rssi = - 30, sa_dist = 1,
            sa_meta = \<lparr>bssid = ''cc'', ssid = ''near'', band = ''5 GHz'', rssi = - 30\<rparr>\<rparr>,
        \<lparr>sa_t = 600, sa_rssi = - 29, sa_dist = 1 / 2,
            sa_meta = \<lparr>bssid = ''cc'', ssid = ''near'', band = ''5 GHz'', rssi = - 29\<rparr>\<rparr>,
        \<lparr>sa_t = 1000, sa_rssi = - 30, sa_dist = 1,
            sa_meta = \<lparr>bssid = ''cc'', ssid = ''near'', band = ''5 GHz'', rssi = - 30\<rparr>\<rparr>]),
      (''bb'',
       [\<lparr>sa_t = 0, sa_rssi = - 30, sa_dist = 2,
            sa_meta = \<lparr>bssid = ''bb'', ssid = ''far'', band = ''2.4 GHz'', rssi = - 30\<rparr>\<rparr>,
        \<lparr>sa_t = 100, sa_rssi = - 80, sa_dist = 37,
            sa_meta = \<lparr>bssid = ''bb'', ssid = ''far'', band = ''2.4 GHz'', rssi = - 80\<rparr>\<rparr>,
        \<lparr>sa_t = 200, sa_rssi = - 80, sa_dist = 37,
            sa_meta = \<lparr>bssid = ''bb'', ssid = ''far'', band = ''2.4 GHz'', rssi = - 80\<rparr>\<rparr>,
        \<lparr>sa_t = 300, sa_rssi = - 80, sa_dist = 37,
            sa_meta = \<lparr>bssid = ''bb'', ssid = ''far'', band = ''2.4 GHz'', rssi = - 80\<rparr>\<rparr>,
        \<lparr>sa_t = 400, sa_rssi = - 80, sa_dist = 37,
            sa_meta = \<lparr>bssid = ''bb'', ssid = ''far'', band = ''2.4 GHz'', rssi = - 80\<rparr>\<rparr>]),
      (''aa'',
       [\<lparr>sa_t = 0, sa_rssi = - 60, sa_dist = 10,
            sa_meta = \<lparr>bssid = ''aa'', ssid = ''good'', band = ''5 GHz'', rssi = - 60\<rparr>\<rparr>,
        \<lparr>sa_t = 100, sa_rssi = - 35, sa_dist = 4,
            sa_meta = \<lparr>bssid = ''aa'', ssid = ''good'', band = ''5 GHz'', rssi = - 35\<rparr>\<rparr>,
        \<lparr>sa_t = 200, sa_rssi = - 35, sa_dist = 4,
            sa_meta = \<lparr>bssid = ''aa'', ssid = ''good'', band = ''5 GHz'', rssi = - 35\<rparr>\<rparr>,
        \<lparr>sa_t = 300, sa_rssi = - 35, sa_dist = 4,
            sa_meta = \<lparr>bssid = ''aa'', ssid = ''good'', band = ''5 GHz'', rssi = - 35\<rparr>\<rparr>,
        \<lparr>sa_t = 400, sa_rssi = - 35, sa_dist = 3,
            sa_meta = \<lparr>bssid = ''aa'', ssid = ''good'', band = ''5 GHz'', rssi = - 34\<rparr>\<rparr>])],
      Some (Some \<lparr>c_bssid = ''aa'', c_avgRssi = - 40, c_avgDist = 5,
                  c_meta = \<lparr>bssid = ''aa'', ssid = ''good'', band = ''5 GHz'', rssi = - 34\<rparr>,
                  c_score = - 50\<rparr>))
   \<and> DURATION \<le> 30000
   \<and> (- 31 + - 30 + - 29 + - 30) / 4 - 2 * ((3 / 2 + 1 + 1 / 2 + 1) / 4) = (- 32 :: real)
   \<and> (- 30 + - 80 + - 80 + - 80 + - 80) / 5 - 2 * ((2 + 37 + 37 + 37 + 37) / 5)
       \<le> (- 50 :: real)"
proof -
  let ?cc = "[\<lparr>sa_t = 0, sa_rssi = - 31, sa_dist = 3 / 2,
            sa_meta = \<lparr>bssid = ''cc'', ssid = ''near'', band = ''5 GHz'', rssi = - 31\<rparr>\<rparr>,
        \<lparr>sa_t = 300, sa_rssi = - 30, sa_dist = 1,
            sa_meta = \<lparr>bssid = ''cc'', ssid = ''near'', band = ''5 GHz'', rssi = - 30\<rparr>\<rparr>,
        \<lparr>sa_t = 600, sa_rssi = - 29, sa_dist = 1 / 2,
            sa_meta = \<lparr>bssid = ''cc'', ssid = ''near'', band = ''5 GHz'', rssi = - 29\<rparr>\<rparr>]"
  let ?new = "\<lparr>sa_t = 1000, sa_rssi = - 30, sa_dist = 1,
            sa_meta = \<lparr>bssid = ''cc'', ssid = ''near'', band = ''5 GHz'', rssi = - 30\<rparr>\<rparr>"
  let ?bb = "[\<lparr>sa_t = 0, sa_rssi = - 30, sa_dist = 2,
            sa_meta = \<lparr>bssid = ''bb'', ssid = ''far'', band = ''2.4 GHz'', rssi = - 30\<rparr>\<rparr>,
        \<lparr>sa_t = 100, sa_rssi = - 80, sa_dist = 37,
            sa_meta = \<lparr>bssid = ''bb'', ssid = ''far'', band = ''2.4 GHz'', rssi = - 80\<rparr>\<rparr>,
        \<lparr>sa_t = 200, sa_rssi = - 80, sa_dist = 37,
            sa_meta = \<lparr>bssid = ''bb'', ssid = ''far'', band = ''2.4 GHz'', rssi = - 80\<rparr>\<rparr>,
        \<lparr>sa_t = 300, sa_rssi = - 80, sa_dist = 37,
            sa_meta = \<lparr>bssid = ''bb'', ssid = ''far'', band = ''2.4 GHz'', rssi = - 80\<rparr>\<rparr>,
        \<lparr>sa_t = 400, sa_rssi = - 80, sa_dist = 37,
            sa_meta = \<lparr>bssid = ''bb'', ssid = ''far'', band = ''2.4 GHz'', rssi = - 80\<rparr>\<rparr>]"
  let ?aa = "[\<lparr>sa_t = 0, sa_rssi = - 60, sa_dist = 10,
            sa_meta = \<lparr>bssid = ''aa'', ssid = ''good'', band = ''5 GHz'', rssi = - 60\<rparr>\<rparr>,
        \<lparr>sa_t = 100, sa_rssi = - 35, sa_dist = 4,
            sa_meta = \<lparr>bssid = ''aa'', ssid = ''good'', band = ''5 GHz'', rssi = - 35\<rparr>\<rparr>,
        \<lparr>sa_t = 200, sa_rssi = - 35, sa_dist = 4,
            sa_meta = \<lparr>bssid = ''aa'', ssid = ''good'', band = ''5 GHz'', rssi = - 35\<rparr>\<rparr>,
        \<lparr>sa_t = 300, sa_rssi = - 35, sa_dist = 4,
            sa_meta = \<lparr>bssid = ''aa'', ssid = ''good'', band = ''5 GHz'', rssi = - 35\<rparr>\<rparr>,
        \<lparr>sa_t = 400, sa_rssi = - 35, sa_dist = 3,
            sa_meta = \<lparr>bssid = ''aa'', ssid = ''good'', band = ''5 GHz'', rssi = - 34\<rparr>\<rparr>]"
  have st: "step Trilateration 30000 1000
     [\<lparr>bssid = ''cc'', ssid = ''near'', band = ''5 GHz'', rssi = - 30\<rparr>]
     [''cc'' \<mapsto> \<lparr>sm_rssi = - 30, sm_dist = 1\<rparr>]
     [(''cc'', ?cc), (''bb'', ?bb), (''aa'', ?aa)]
   = ([(''cc'', ?cc @ [?new]), (''bb'', ?bb), (''aa'', ?aa)],
      Some (Some \<lparr>c_bssid = ''aa'', c_avgRssi = - 40, c_avgDist = 5,
                  c_meta = \<lparr>bssid = ''aa'', ssid = ''good'', band = ''5 GHz'', rssi = - 34\<rparr>,
                  c_score = - 50\<rparr>))"
    by (simp add: step_def collect_def prev_entry_def DURATION_def suggest_def score_entry_def
        Let_def candidate_of_def score_def scoreWeight_def avgRssi_def avgDist_def)
  show ?thesis
    using st suggest_best [OF st]
    by (simp add: DURATION_def scoreWeight_def)
qed

end
